theory Spec2Isabelle
  imports Main "HOL-Library.Word"
begin

section \<open>xopen: opening compressed files transparently\<close>

text \<open>
  A shallow embedding of \<^verbatim>\<open>src/xopen/__init__.py\<close>. Every function of the module that
  touches the operating system (files, subprocesses, the in-process codecs) is modelled
  as a function from a world to a result and a new world. The world carries a log of the
  system calls made so far, in order; the answers of the operating system and of the
  codecs come from an environment of oracles, each of which may depend on the whole log.
  A Python exception is the \<open>Inl\<close> branch of a sum.
\<close>

subsection \<open>Exceptions\<close>

datatype error =
    ValueError string
  | KeyError string
  | IndexError
  | FileNotFoundError
  | OSError string
  | CalledProcessError
  | OtherError string

text \<open>\<^verbatim>\<open>except OSError\<close> catches \<^verbatim>\<open>FileNotFoundError\<close> too, which is a subclass.\<close>

fun is_OSError :: "error \<Rightarrow> bool" where
  "is_OSError FileNotFoundError = True"
| "is_OSError (OSError _) = True"
| "is_OSError _ = False"

fun is_ValueError :: "error \<Rightarrow> bool" where
  "is_ValueError (ValueError _) = True"
| "is_ValueError _ = False"

subsection \<open>Strings and bytes\<close>

type_synonym bytes = "8 word list"

definition quoted :: "string \<Rightarrow> string" where
  "quoted s = CHR 0x27 # s @ [CHR 0x27]"

text \<open>The decimal digit of a number below ten.\<close>

definition digit_char :: "nat \<Rightarrow> char" where
  "digit_char n = ''0123456789'' ! n"

fun digits :: "nat \<Rightarrow> string" where
  "digits n = (if n < 10 then [digit_char n] else digits (n div 10) @ [digit_char (n mod 10)])"

declare digits.simps [simp del]

text \<open>Python's \<^verbatim>\<open>str(i)\<close> for an integer.\<close>

definition str_int :: "int \<Rightarrow> string" where
  "str_int i = (if i < 0 then CHR ''-'' # digits (nat (- i)) else digits (nat i))"

text \<open>\<^verbatim>\<open>s.endswith(suffix)\<close>: an exact, case-sensitive comparison of the last characters.\<close>

definition endswith :: "string \<Rightarrow> string \<Rightarrow> bool" where
  "endswith s suf = (length suf \<le> length s \<and> drop (length s - length suf) s = suf)"

text \<open>
  \<^verbatim>\<open>s.strip()\<close>: a character is a code point below 256, and of these Python's
  \<^verbatim>\<open>str.isspace\<close> holds for U+0009 to U+000D, U+001C to U+0020, U+0085 and U+00A0.
\<close>

definition isspace :: "char \<Rightarrow> bool" where
  "isspace c = (c \<in> set [CHR 0x09, CHR 0x0A, CHR 0x0B, CHR 0x0C, CHR 0x0D,
                            CHR 0x1C, CHR 0x1D, CHR 0x1E, CHR 0x1F, CHR 0x20,
                            CHR 0x85, CHR 0xA0])"

definition strip :: "string \<Rightarrow> string" where
  "strip s = rev (dropWhile isspace (rev (dropWhile isspace s)))"

text \<open>\<^verbatim>\<open>c in range(lo, hi)\<close> for an integer \<open>c\<close>.\<close>

definition in_range :: "int \<Rightarrow> int \<Rightarrow> int \<Rightarrow> bool" where
  "in_range lo hi c = (lo \<le> c \<and> c < hi)"

definition SIGTERM :: int where
  "SIGTERM = 15"

subsection \<open>The world: a log of system calls and the process table\<close>

datatype std = Stdin | Stdout

datatype event =
    Open string string  \<comment> \<open>the builtin \<^verbatim>\<open>open(path, mode)\<close>\<close>
  | OpenFd std string  \<comment> \<open>\<^verbatim>\<open>open(std.fileno(), mode=mode, closefd=False)\<close>\<close>
  | Close string  \<comment> \<open>closing the file object opened on a path\<close>
  | Popen "string list"  \<comment> \<open>\<^verbatim>\<open>Popen(args, ...)\<close>\<close>
  | Run "string list"  \<comment> \<open>\<^verbatim>\<open>subprocess.run(args, check=True, ...)\<close>\<close>
  | Stat string  \<comment> \<open>\<^verbatim>\<open>os.stat(filename)\<close>\<close>
  | Read6 string  \<comment> \<open>\<^verbatim>\<open>open(filename, "rb")\<close> and \<^verbatim>\<open>read(6)\<close>\<close>
  | GzipOpen string string "int option"  \<comment> \<open>\<^verbatim>\<open>gzip.open\<close>, with the level when one is passed\<close>
  | Bz2Open string string  \<comment> \<open>\<^verbatim>\<open>bz2.open\<close>\<close>
  | LzmaOpen string string  \<comment> \<open>\<^verbatim>\<open>lzma.open\<close>\<close>
  | CpuCount  \<comment> \<open>\<^verbatim>\<open>_available_cpu_count()\<close>\<close>
  | Sleep  \<comment> \<open>\<^verbatim>\<open>time.sleep(0.01)\<close>\<close>
  | Poll nat  \<comment> \<open>\<^verbatim>\<open>process.poll()\<close>\<close>
  | Terminate nat  \<comment> \<open>\<^verbatim>\<open>process.terminate()\<close>\<close>
  | Wait nat  \<comment> \<open>\<^verbatim>\<open>process.wait()\<close>\<close>
  | ClosePipe nat  \<comment> \<open>closing the pipe to or from the process\<close>
  | ReadStderr nat  \<comment> \<open>reading the captured standard error of the process\<close>
  | CloseStderr nat  \<comment> \<open>closing the captured standard error of the process\<close>

record world =
  log :: "event list"
  procs :: nat  \<comment> \<open>processes spawned so far; the next one gets this number\<close>
  returncode :: "nat \<Rightarrow> int option"  \<comment> \<open>\<^verbatim>\<open>Popen.returncode\<close> of each process\<close>

text \<open>
  The environment: what the operating system, the external programs and the in-process
  codecs answer. \<open>None\<close> from an opening oracle means success, \<open>Some e\<close> that the call
  raises \<open>e\<close>. Every oracle gets the log of the calls made before it.
\<close>

record env =
  builtin_open :: "event list \<Rightarrow> string \<Rightarrow> string \<Rightarrow> error option"
  std_open :: "event list \<Rightarrow> std \<Rightarrow> string \<Rightarrow> error option"
  devnull :: string  \<comment> \<open>\<^verbatim>\<open>os.devnull\<close>\<close>
  popen :: "event list \<Rightarrow> string list \<Rightarrow> error option"
  subprocess_run :: "event list \<Rightarrow> string list \<Rightarrow> error + bytes"
  test_gz :: string  \<comment> \<open>the absolute path of \<^verbatim>\<open>resources/concatenated.gz\<close>\<close>
  os_stat :: "event list \<Rightarrow> string \<Rightarrow> error + bool"  \<comment> \<open>\<^verbatim>\<open>S_ISREG\<close> of the mode\<close>
  read6 :: "event list \<Rightarrow> string \<Rightarrow> error + bytes"
  gzip_open :: "event list \<Rightarrow> string \<Rightarrow> string \<Rightarrow> int option \<Rightarrow> error option"
  bz2_open :: "event list \<Rightarrow> string \<Rightarrow> string \<Rightarrow> error option"
  lzma_open :: "event list \<Rightarrow> string \<Rightarrow> string \<Rightarrow> error option"
  available_cpu_count :: "event list \<Rightarrow> nat"
  proc_poll :: "event list \<Rightarrow> nat \<Rightarrow> int option"
  proc_wait :: "event list \<Rightarrow> nat \<Rightarrow> int"
  stderr_read :: "event list \<Rightarrow> nat \<Rightarrow> string"
  stdin_close :: "event list \<Rightarrow> nat \<Rightarrow> error option"

definition emit :: "event \<Rightarrow> world \<Rightarrow> world" where
  "emit e w = w\<lparr>log := log w @ [e]\<rparr>"

text \<open>
  \<^verbatim>\<open>Popen.poll\<close> and \<^verbatim>\<open>Popen.wait\<close>: once the exit code of a process is known it is
  kept in \<^verbatim>\<open>returncode\<close> and returned from then on.
\<close>

definition poll :: "env \<Rightarrow> nat \<Rightarrow> world \<Rightarrow> int option \<times> world" where
  "poll E pid w =
     (case returncode w pid of
        Some rc \<Rightarrow> (Some rc, emit (Poll pid) w)
      | None \<Rightarrow>
          (let r = proc_poll E (log w) pid
           in (r, (emit (Poll pid) w)\<lparr>returncode := (returncode w)(pid := r)\<rparr>)))"

definition wait :: "env \<Rightarrow> nat \<Rightarrow> world \<Rightarrow> int \<times> world" where
  "wait E pid w =
     (case returncode w pid of
        Some rc \<Rightarrow> (rc, emit (Wait pid) w)
      | None \<Rightarrow>
          (let rc = proc_wait E (log w) pid
           in (rc, (emit (Wait pid) w)\<lparr>returncode := (returncode w)(pid := Some rc)\<rparr>)))"

subsection \<open>Stream handles\<close>

record piped_writer =
  w_name :: string
  w_mode :: string
  w_program :: string
  w_threads_flag :: "string option"
  w_process :: nat
  w_text :: bool  \<comment> \<open>\<^verbatim>\<open>_file\<close> is a \<^verbatim>\<open>TextIOWrapper\<close> around the pipe\<close>
  w_closed :: bool

record piped_reader =
  r_name :: string
  r_process :: nat
  r_text :: bool
  r_closed :: bool

datatype stream =
    PlainFile string string
  | StdStream std string
  | GzipFile string string "int option"
  | BZ2File string string
  | LZMAFile string string
  | PipedWriter piped_writer
  | PipedReader piped_reader

type_synonym 'a result = "(error + 'a) \<times> world"

subsection \<open>\<^verbatim>\<open>_can_read_concatenated_gz\<close>\<close>

definition concatenated_payload :: bytes where
  "concatenated_payload = [0x41, 0x42, 0x43, 0x44, 0x45, 0x46, 0x47, 0x48]"

definition can_read_concatenated_gz :: "env \<Rightarrow> string \<Rightarrow> world \<Rightarrow> bool result" where
  "can_read_concatenated_gz E program w =
     (let args = [program, ''-c'', ''-d'', test_gz E]
      in case subprocess_run E (log w) args of
           Inl e \<Rightarrow> (if e = CalledProcessError then Inr False else Inl e, emit (Run args) w)
         | Inr out \<Rightarrow> (Inr (out = concatenated_payload), emit (Run args) w))"

subsection \<open>\<^verbatim>\<open>PipedCompressionWriter\<close>\<close>

definition writer_modes :: "string list" where
  "writer_modes = [''w'', ''wt'', ''wb'', ''a'', ''at'', ''ab'']"

definition writer_open_process ::
  "env \<Rightarrow> string \<Rightarrow> string option \<Rightarrow> string \<Rightarrow> int option \<Rightarrow> int \<Rightarrow> world \<Rightarrow> nat result" where
  "writer_open_process E program threads_flag mode compresslevel threads w =
     (let program_args =
            [program] @
            (case threads_flag of
               Some flag \<Rightarrow> if threads \<noteq> 0 then [flag, str_int threads] else []
             | None \<Rightarrow> []);
          extra_args =
            (case compresslevel of
               Some c \<Rightarrow> if CHR ''w'' \<in> set mode then [''-'' @ str_int c] else []
             | None \<Rightarrow> []);
          args = program_args @ extra_args
      in case popen E (log w) args of
           Some e \<Rightarrow> (Inl e, emit (Popen args) w)
         | None \<Rightarrow> (Inr (procs w), (emit (Popen args) w)\<lparr>procs := Suc (procs w)\<rparr>))"

definition PipedCompressionWriter_init ::
  "env \<Rightarrow> string \<Rightarrow> string \<Rightarrow> string \<Rightarrow> int option \<Rightarrow> string option \<Rightarrow> int option \<Rightarrow>
   world \<Rightarrow> piped_writer result" where
  "PipedCompressionWriter_init E path program mode compresslevel threads_flag threads w =
     (if mode \<notin> set writer_modes then
        (Inl (ValueError (''Mode is '' @ quoted mode @
           '', but it must be 'w', 'wt', 'wb', 'a', 'at' or '' @ quoted ''ab'')), w)
      else
        case builtin_open E (log w) path mode of
          Some e \<Rightarrow> (Inl e, emit (Open path mode) w)
        | None \<Rightarrow>
            (let w1 = emit (Open path mode) w
             in case builtin_open E (log w1) (devnull E) mode of
                  Some e \<Rightarrow> (Inl e, emit (Open (devnull E) mode) w1)
                | None \<Rightarrow>
                    (let w2 = emit (Open (devnull E) mode) w1;
                         tw = (case threads of
                                 None \<Rightarrow>
                                   (min (int (available_cpu_count E (log w2))) 4, emit CpuCount w2)
                               | Some t \<Rightarrow> (t, w2));
                         pr = writer_open_process E program threads_flag mode compresslevel
                                (fst tw) (snd tw)
                     in case fst pr of
                          Inl e \<Rightarrow>
                            if is_OSError e
                            then (Inl e, emit (Close (devnull E)) (emit (Close path) (snd pr)))
                            else (Inl e, snd pr)
                        | Inr pid \<Rightarrow>
                            (Inr \<lparr>w_name = path, w_mode = mode, w_program = program,
                                  w_threads_flag = threads_flag, w_process = pid,
                                  w_text = (CHR ''b'' \<notin> set mode), w_closed = False\<rparr>,
                             snd pr))))"

definition PipedCompressionWriter_close ::
  "env \<Rightarrow> piped_writer \<Rightarrow> world \<Rightarrow> error option \<times> piped_writer \<times> world" where
  "PipedCompressionWriter_close E self w =
     (if w_closed self then (None, self, w)
      else
        (let self1 = self\<lparr>w_closed := True\<rparr>;
             pid = w_process self
         in case stdin_close E (log w) pid of
              Some e \<Rightarrow> (Some e, self1, emit (ClosePipe pid) w)
            | None \<Rightarrow>
                (let w1 = emit (ClosePipe pid) w;
                     rw = wait E pid w1;
                     w3 = emit (Close (devnull E)) (emit (Close (w_name self)) (snd rw))
                 in if fst rw \<noteq> 0
                    then (Some (OSError (''Output '' @ w_program self @
                            '' process terminated with exit code '' @ str_int (fst rw))),
                          self1, w3)
                    else (None, self1, w3))))"

subsection \<open>\<^verbatim>\<open>PipedCompressionReader\<close>\<close>

definition reader_modes :: "string list" where
  "reader_modes = [''r'', ''rt'', ''rb'']"

definition raise_if_error ::
  "env \<Rightarrow> piped_reader \<Rightarrow> bool \<Rightarrow> world \<Rightarrow> error option \<times> world" where
  "raise_if_error E self allow_sigterm w =
     (let pid = r_process self;
          pw = poll E pid w
      in case fst pw of
           None \<Rightarrow> (None, snd pw)
         | Some retcode \<Rightarrow>
             if retcode \<noteq> 0 \<and> \<not> (allow_sigterm \<and> retcode = - SIGTERM)
             then
               (let message = strip (stderr_read E (log (snd pw)) pid);
                    w1 = emit (CloseStderr pid) (emit (ClosePipe pid) (emit (ReadStderr pid) (snd pw)))
                in (Some (OSError (message @ '' (exit code '' @ str_int retcode @ '')'')), w1))
             else (None, snd pw))"

definition PipedCompressionReader_init ::
  "env \<Rightarrow> string \<Rightarrow> string \<Rightarrow> string \<Rightarrow> string option \<Rightarrow> int option \<Rightarrow> world \<Rightarrow>
   piped_reader result" where
  "PipedCompressionReader_init E path program mode threads_flag threads w =
     (if mode \<notin> set reader_modes then
        (Inl (ValueError (''Mode is '' @ quoted mode @ '', but it must be 'r', 'rt' or '' @
           quoted ''rb'')), w)
      else
        (let program_args =
               [program, ''-cd'', path] @
               (case threads_flag of
                  Some flag \<Rightarrow> [flag, str_int (case threads of None \<Rightarrow> 1 | Some t \<Rightarrow> t)]
                | None \<Rightarrow> [])
         in case popen E (log w) program_args of
              Some e \<Rightarrow> (Inl e, emit (Popen program_args) w)
            | None \<Rightarrow>
                (let self = \<lparr>r_name = path, r_process = procs w,
                             r_text = (CHR ''b'' \<notin> set mode), r_closed = False\<rparr>;
                     w1 = (emit (Popen program_args) w)\<lparr>procs := Suc (procs w)\<rparr>;
                     ew = raise_if_error E self False (emit Sleep w1)
                 in case fst ew of
                      Some e \<Rightarrow> (Inl e, snd ew)
                    | None \<Rightarrow> (Inr self, snd ew))))"

definition PipedCompressionReader_close ::
  "env \<Rightarrow> piped_reader \<Rightarrow> world \<Rightarrow> error option \<times> piped_reader \<times> world" where
  "PipedCompressionReader_close E self w =
     (if r_closed self then (None, self, w)
      else
        (let self1 = self\<lparr>r_closed := True\<rparr>;
             pid = r_process self;
             pw = poll E pid w;
             allow_sigterm = (fst pw = None);
             w1 = (if fst pw = None then emit (Terminate pid) (snd pw) else snd pw);
             w2 = emit (ClosePipe pid) (snd (wait E pid w1));
             ew = raise_if_error E self1 allow_sigterm w2
         in case fst ew of
              Some e \<Rightarrow> (Some e, self1, snd ew)
            | None \<Rightarrow> (None, self1, emit (CloseStderr pid) (snd ew))))"

subsection \<open>The gzip backends\<close>

text \<open>\<^verbatim>\<open>PipedGzipReader.__init__\<close>: pigz, and gzip when pigz is not found.\<close>

definition PipedGzipReader_init ::
  "env \<Rightarrow> string \<Rightarrow> string \<Rightarrow> int option \<Rightarrow> world \<Rightarrow> piped_reader result" where
  "PipedGzipReader_init E path mode threads w =
     (let r = PipedCompressionReader_init E path ''pigz'' mode (Some ''-p'') threads w
      in if fst r = Inl FileNotFoundError
         then PipedCompressionReader_init E path ''gzip'' mode None threads (snd r)
         else r)"

text \<open>\<^verbatim>\<open>PipedGzipWriter.__init__\<close>: the level is checked first, then pigz, then gzip.\<close>

definition PipedGzipWriter_init ::
  "env \<Rightarrow> string \<Rightarrow> string \<Rightarrow> int option \<Rightarrow> int option \<Rightarrow> world \<Rightarrow> piped_writer result" where
  "PipedGzipWriter_init E path mode compresslevel threads w =
     (if (case compresslevel of None \<Rightarrow> False | Some c \<Rightarrow> \<not> in_range 1 10 c) then
        (Inl (ValueError ''compresslevel must be between 1 and 9''), w)
      else
        (let r = PipedCompressionWriter_init E path ''pigz'' mode compresslevel (Some ''-p'')
                   threads w
         in if fst r = Inl FileNotFoundError
            then PipedCompressionWriter_init E path ''gzip'' mode compresslevel None threads (snd r)
            else r))"

text \<open>\<^verbatim>\<open>PipedIGzipReader.__init__\<close>: the probe of igzip runs first, at every construction.\<close>

definition PipedIGzipReader_init ::
  "env \<Rightarrow> string \<Rightarrow> string \<Rightarrow> world \<Rightarrow> piped_reader result" where
  "PipedIGzipReader_init E path mode w =
     (let c = can_read_concatenated_gz E ''igzip'' w
      in case fst c of
           Inl e \<Rightarrow> (Inl e, snd c)
         | Inr ok \<Rightarrow>
             if \<not> ok then
               (Inl (ValueError (''This version of igzip does not support reading '' @
                  ''concatenated gzip files and is therefore not '' @
                  ''safe to use. See: https://github.com/intel/isa-l/issues/143'')), snd c)
             else PipedCompressionReader_init E path ''igzip'' mode None None (snd c))"

definition PipedIGzipWriter_init ::
  "env \<Rightarrow> string \<Rightarrow> string \<Rightarrow> int option \<Rightarrow> world \<Rightarrow> piped_writer result" where
  "PipedIGzipWriter_init E path mode compresslevel w =
     (if (case compresslevel of None \<Rightarrow> False | Some c \<Rightarrow> \<not> in_range 0 4 c) then
        (Inl (ValueError ''compresslevel must be between 0 and 3''), w)
      else PipedCompressionWriter_init E path ''igzip'' mode compresslevel None None w)"

subsection \<open>The openers\<close>

definition open_stdin_or_out :: "env \<Rightarrow> string \<Rightarrow> world \<Rightarrow> stream result" where
  "open_stdin_or_out E mode w =
     (case mode of
        [] \<Rightarrow> (Inl IndexError, w)
      | c # _ \<Rightarrow>
          (case map_of [(CHR ''r'', Stdin), (CHR ''w'', Stdout)] c of
             None \<Rightarrow> (Inl (KeyError [c]), w)
           | Some s \<Rightarrow>
               (case std_open E (log w) s mode of
                  Some e \<Rightarrow> (Inl e, emit (OpenFd s mode) w)
                | None \<Rightarrow> (Inr (StdStream s mode), emit (OpenFd s mode) w))))"

definition open_bz2 :: "env \<Rightarrow> string \<Rightarrow> string \<Rightarrow> world \<Rightarrow> stream result" where
  "open_bz2 E filename mode w =
     (case bz2_open E (log w) filename mode of
        Some e \<Rightarrow> (Inl e, emit (Bz2Open filename mode) w)
      | None \<Rightarrow> (Inr (BZ2File filename mode), emit (Bz2Open filename mode) w))"

definition open_xz :: "env \<Rightarrow> string \<Rightarrow> string \<Rightarrow> world \<Rightarrow> stream result" where
  "open_xz E filename mode w =
     (case lzma_open E (log w) filename mode of
        Some e \<Rightarrow> (Inl e, emit (LzmaOpen filename mode) w)
      | None \<Rightarrow> (Inr (LZMAFile filename mode), emit (LzmaOpen filename mode) w))"

text \<open>\<^verbatim>\<open>gzip.open(filename, mode)\<close> or \<^verbatim>\<open>gzip.open(filename, mode, compresslevel=...)\<close>.\<close>

definition gzip_open_call ::
  "env \<Rightarrow> string \<Rightarrow> string \<Rightarrow> int option \<Rightarrow> world \<Rightarrow> stream result" where
  "gzip_open_call E filename mode level w =
     (case gzip_open E (log w) filename mode level of
        Some e \<Rightarrow> (Inl e, emit (GzipOpen filename mode level) w)
      | None \<Rightarrow> (Inr (GzipFile filename mode level), emit (GzipOpen filename mode level) w))"

definition lift_reader :: "piped_reader result \<Rightarrow> stream result" where
  "lift_reader r = (map_sum id PipedReader (fst r), snd r)"

definition lift_writer :: "piped_writer result \<Rightarrow> stream result" where
  "lift_writer r = (map_sum id PipedWriter (fst r), snd r)"

text \<open>
  The \<^verbatim>\<open>try\<close> block of \<^verbatim>\<open>_open_gz\<close>: the specialised backend, and the general one when
  the specialised one raises \<^verbatim>\<open>FileNotFoundError\<close> or \<^verbatim>\<open>ValueError\<close>.
\<close>

definition open_gz_piped ::
  "env \<Rightarrow> string \<Rightarrow> string \<Rightarrow> int option \<Rightarrow> int option \<Rightarrow> world \<Rightarrow> stream result" where
  "open_gz_piped E filename mode compresslevel threads w =
     (if CHR ''r'' \<in> set mode then
        (let r = PipedIGzipReader_init E filename mode w
         in case fst r of
              Inl e \<Rightarrow>
                if e = FileNotFoundError \<or> is_ValueError e
                then lift_reader (PipedGzipReader_init E filename mode threads (snd r))
                else (Inl e, snd r)
            | Inr self \<Rightarrow> (Inr (PipedReader self), snd r))
      else
        (let r = PipedIGzipWriter_init E filename mode compresslevel w
         in case fst r of
              Inl e \<Rightarrow>
                if e = FileNotFoundError \<or> is_ValueError e
                then lift_writer (PipedGzipWriter_init E filename mode compresslevel threads (snd r))
                else (Inl e, snd r)
            | Inr self \<Rightarrow> (Inr (PipedWriter self), snd r)))"

definition open_gz_codec ::
  "env \<Rightarrow> string \<Rightarrow> string \<Rightarrow> int option \<Rightarrow> world \<Rightarrow> stream result" where
  "open_gz_codec E filename mode compresslevel w =
     (if CHR ''r'' \<in> set mode then gzip_open_call E filename mode None w
      else gzip_open_call E filename mode
             (Some (case compresslevel of None \<Rightarrow> 6 | Some c \<Rightarrow> c)) w)"

definition open_gz ::
  "env \<Rightarrow> string \<Rightarrow> string \<Rightarrow> int option \<Rightarrow> int option \<Rightarrow> world \<Rightarrow> stream result" where
  "open_gz E filename mode compresslevel threads w =
     (if threads \<noteq> Some 0 then
        (let r = open_gz_piped E filename mode compresslevel threads w
         in if fst r = Inl FileNotFoundError
            then open_gz_codec E filename mode compresslevel (snd r)
            else r)
      else open_gz_codec E filename mode compresslevel w)"

subsection \<open>Format detection\<close>

definition detect_format_from_content :: "env \<Rightarrow> string \<Rightarrow> world \<Rightarrow> string option result" where
  "detect_format_from_content E filename w =
     (case os_stat E (log w) filename of
        Inl e \<Rightarrow> (if is_OSError e then Inr None else Inl e, emit (Stat filename) w)
      | Inr isreg \<Rightarrow>
          (let w1 = emit (Stat filename) w
           in if isreg then
                (case read6 E (log w1) filename of
                   Inl e \<Rightarrow> (if is_OSError e then Inr None else Inl e, emit (Read6 filename) w1)
                 | Inr content \<Rightarrow>
                     (let bs = take 6 content
                      in (Inr (if take 2 bs = [0x1f, 0x8b] then Some ''gz''
                               else if take 3 bs = [0x42, 0x5a, 0x68] then Some ''bz2''
                               else if take 6 bs = [0xfd, 0x37, 0x7a, 0x58, 0x5a, 0x00]
                               then Some ''xz''
                               else None),
                          emit (Read6 filename) w1)))
              else (Inr None, w1)))"

definition detect_format_from_extension :: "string \<Rightarrow> string option" where
  "detect_format_from_extension filename =
     (if endswith filename ''.bz2'' then Some ''bz2''
      else if endswith filename ''.xz'' then Some ''xz''
      else if endswith filename ''.gz'' then Some ''gz''
      else None)"

subsection \<open>\<^verbatim>\<open>xopen\<close>\<close>

definition legal_modes :: "string list" where
  "legal_modes = [''rt'', ''rb'', ''wt'', ''wb'', ''at'', ''ab'']"

text \<open>Lines 474 and 475: \<^verbatim>\<open>if mode in ('r', 'w', 'a'): mode += 't'\<close>.\<close>

definition normalize_mode :: "string \<Rightarrow> string" where
  "normalize_mode mode = (if mode \<in> set [''r'', ''w'', ''a''] then mode @ ''t'' else mode)"

definition plain_open :: "env \<Rightarrow> string \<Rightarrow> string \<Rightarrow> world \<Rightarrow> stream result" where
  "plain_open E filename mode w =
     (case builtin_open E (log w) filename mode of
        Some e \<Rightarrow> (Inl e, emit (Open filename mode) w)
      | None \<Rightarrow> (Inr (PlainFile filename mode), emit (Open filename mode) w))"

text \<open>Lines 483 to 485: the extension first, the content when the mode has no \<^verbatim>\<open>w\<close>.\<close>

definition detect_format :: "env \<Rightarrow> string \<Rightarrow> string \<Rightarrow> world \<Rightarrow> string option result" where
  "detect_format E filename mode w =
     (case detect_format_from_extension filename of
        None \<Rightarrow>
          if CHR ''w'' \<notin> set mode then detect_format_from_content E filename w
          else (Inr None, w)
      | Some f \<Rightarrow> (Inr (Some f), w))"

definition xopen ::
  "env \<Rightarrow> string \<Rightarrow> string \<Rightarrow> int option \<Rightarrow> int option \<Rightarrow> world \<Rightarrow> stream result" where
  "xopen E filename mode0 compresslevel threads w =
     (let mode = normalize_mode mode0
      in if mode \<notin> set legal_modes then
           (Inl (ValueError (''Mode '' @ quoted mode @ '' not supported'')), w)
         else if filename = ''-'' then open_stdin_or_out E mode w
         else
           (let d = detect_format E filename mode w
            in case fst d of
                 Inl e \<Rightarrow> (Inl e, snd d)
               | Inr detected_format \<Rightarrow>
                   if detected_format = Some ''gz''
                   then open_gz E filename mode compresslevel threads (snd d)
                   else if detected_format = Some ''xz'' then open_xz E filename mode (snd d)
                   else if detected_format = Some ''bz2'' then open_bz2 E filename mode (snd d)
                   else plain_open E filename mode (snd d)))"

subsection \<open>Observations on the log\<close>

text \<open>
  The calls a function adds to the log, and the statement that a function has only added
  calls of a given kind.
\<close>

definition new_events :: "world \<Rightarrow> world \<Rightarrow> event list" where
  "new_events w w' = drop (length (log w)) (log w')"

definition emits_only :: "(event \<Rightarrow> bool) \<Rightarrow> world \<Rightarrow> world \<Rightarrow> bool" where
  "emits_only P w w' =
     (take (length (log w)) (log w') = log w \<and> list_all P (new_events w w'))"

text \<open>Calls that look at the target file to find its format.\<close>

fun is_sniff :: "event \<Rightarrow> bool" where
  "is_sniff (Stat _) = True"
| "is_sniff (Read6 _) = True"
| "is_sniff _ = False"

text \<open>Calls that start an external program, and the starts of one program.\<close>

fun is_spawn :: "event \<Rightarrow> bool" where
  "is_spawn (Popen _) = True"
| "is_spawn (Run _) = True"
| "is_spawn _ = False"

fun spawns :: "string \<Rightarrow> event \<Rightarrow> bool" where
  "spawns program (Popen args) = (take 1 args = [program])"
| "spawns program _ = False"

text \<open>The runs of the probe of \<^verbatim>\<open>_can_read_concatenated_gz\<close> in a log.\<close>

fun is_probe :: "event \<Rightarrow> bool" where
  "is_probe (Run _) = True"
| "is_probe _ = False"

definition probes :: "world \<Rightarrow> nat" where
  "probes w = length (filter is_probe (log w))"

text \<open>The event is not a call of the gzip codec, or it is one with the given level.\<close>

fun codec_level_is :: "int \<Rightarrow> event \<Rightarrow> bool" where
  "codec_level_is lvl (GzipOpen _ _ l) = (l = Some lvl)"
| "codec_level_is lvl _ = True"

text \<open>
  An environment in which neither opening a file, nor starting a program, nor the gzip
  codec raises a \<^verbatim>\<open>ValueError\<close> of its own.
\<close>

definition raises_no_ValueError :: "env \<Rightarrow> bool" where
  "raises_no_ValueError E =
     (\<forall>l e. is_ValueError e \<longrightarrow>
        (\<forall>p m. builtin_open E l p m \<noteq> Some e) \<and>
        (\<forall>args. popen E l args \<noteq> Some e) \<and>
        (\<forall>p m c. gzip_open E l p m c \<noteq> Some e))"

text \<open>An environment in which every file opens and the given program starts.\<close>

definition starts :: "env \<Rightarrow> string \<Rightarrow> bool" where
  "starts E program =
     (\<forall>l. (\<forall>p m. builtin_open E l p m = None) \<and>
          (\<forall>args. take 1 args = [program] \<longrightarrow> popen E l args = None))"

text \<open>An environment in which every file opens and the given program is not found.\<close>

definition lacks :: "env \<Rightarrow> string \<Rightarrow> bool" where
  "lacks E program =
     (\<forall>l. (\<forall>p m. builtin_open E l p m = None) \<and>
          (\<forall>args. take 1 args = [program] \<longrightarrow> popen E l args = Some FileNotFoundError))"

text \<open>
  A world in which nothing has happened yet, and a concrete environment on which the model
  can be run: the listed programs are installed, the listed files exist with the given
  content, every file can be opened and every process keeps running.
\<close>

definition w0 :: world where
  "w0 = \<lparr>log = [], procs = 0, returncode = (\<lambda>_. None)\<rparr>"

definition test_env :: "string list \<Rightarrow> (string \<times> bytes) list \<Rightarrow> env" where
  "test_env installed files =
     \<lparr>builtin_open = (\<lambda>_ _ _. None),
      std_open = (\<lambda>_ _ _. None),
      devnull = ''/dev/null'',
      popen = (\<lambda>_ args. if take 1 args \<in> set (map (\<lambda>p. [p]) installed) then None
                          else Some FileNotFoundError),
      subprocess_run = (\<lambda>_ args. if take 1 args \<in> set (map (\<lambda>p. [p]) installed)
                                   then Inr concatenated_payload
                                   else Inl FileNotFoundError),
      test_gz = ''/xopen/resources/concatenated.gz'',
      os_stat = (\<lambda>_ f. case map_of files f of None \<Rightarrow> Inl FileNotFoundError | Some _ \<Rightarrow> Inr True),
      read6 = (\<lambda>_ f. case map_of files f of None \<Rightarrow> Inl FileNotFoundError
                                            | Some bs \<Rightarrow> Inr (take 6 bs)),
      gzip_open = (\<lambda>_ _ _ _. None),
      bz2_open = (\<lambda>_ _ _. None),
      lzma_open = (\<lambda>_ _ _. None),
      available_cpu_count = (\<lambda>_. 8),
      proc_poll = (\<lambda>_ _. None),
      proc_wait = (\<lambda>_ _. 0),
      stderr_read = (\<lambda>_ _. []),
      stdin_close = (\<lambda>_ _. None)\<rparr>"

section \<open>Properties\<close>

subsection \<open>What each function adds to the log\<close>

lemma emits_only_iff: "emits_only P w w' \<longleftrightarrow> (\<exists>evs. log w' = log w @ evs \<and> list_all P evs)"
  unfolding emits_only_def new_events_def
  by (metis append_eq_conv_conj append_take_drop_id)

lemma emits_only_refl [simp]: "emits_only P w w"
  by (simp add: emits_only_iff)

lemma emits_only_emit: "P e \<Longrightarrow> emits_only P w w' \<Longrightarrow> emits_only P w (emit e w')"
  by (auto simp: emits_only_iff emit_def)

lemma emits_only_procs [simp]: "emits_only P w (w'\<lparr>procs := n\<rparr>) = emits_only P w w'"
  by (simp add: emits_only_iff)

lemma emits_only_returncode [simp]: "emits_only P w (w'\<lparr>returncode := n\<rparr>) = emits_only P w w'"
  by (simp add: emits_only_iff)

lemma emits_only_trans: "emits_only P w w1 \<Longrightarrow> emits_only P w1 w2 \<Longrightarrow> emits_only P w w2"
  by (auto simp: emits_only_iff)

lemma poll_emits: "P (Poll pid) \<Longrightarrow> emits_only P w w1 \<Longrightarrow> emits_only P w (snd (poll E pid w1))"
  by (auto simp: poll_def Let_def emits_only_emit split: option.splits)

lemma wait_emits: "P (Wait pid) \<Longrightarrow> emits_only P w w1 \<Longrightarrow> emits_only P w (snd (wait E pid w1))"
  by (auto simp: wait_def Let_def emits_only_emit split: option.splits)

lemma probe_emits:
  "P (Run [program, ''-c'', ''-d'', test_gz E]) \<Longrightarrow> emits_only P w w1 \<Longrightarrow>
   emits_only P w (snd (can_read_concatenated_gz E program w1))"
  by (auto simp: can_read_concatenated_gz_def Let_def emits_only_emit split: sum.splits)

lemma writer_open_process_emits:
  "(\<And>args. hd args = program \<Longrightarrow> P (Popen args)) \<Longrightarrow> emits_only P w w1 \<Longrightarrow>
   emits_only P w (snd (writer_open_process E program fl mode cl t w1))"
  by (auto simp: writer_open_process_def Let_def emits_only_emit split: option.splits)

lemma writer_init_emits:
  assumes "\<And>args. hd args = program \<Longrightarrow> P (Popen args)"
    and "\<And>p m. P (Open p m)" and "\<And>p. P (Close p)" and "P CpuCount"
    and "emits_only P w w1"
  shows "emits_only P w (snd (PipedCompressionWriter_init E path program mode cl fl t w1))"
  using assms
  by (auto simp: PipedCompressionWriter_init_def Let_def 
      intro!: emits_only_emit writer_open_process_emits split: option.splits sum.splits)

lemma raise_if_error_emits:
  assumes "\<And>p. P (Poll p)" "\<And>p. P (ReadStderr p)" "\<And>p. P (ClosePipe p)" "\<And>p. P (CloseStderr p)"
    and "emits_only P w w1"
  shows "emits_only P w (snd (raise_if_error E self a w1))"
  using assms
  by (auto simp: raise_if_error_def Let_def intro!: emits_only_emit poll_emits split: option.splits)

lemma reader_init_emits:
  assumes "\<And>args. hd args = program \<Longrightarrow> P (Popen args)" "P Sleep"
     "\<And>p. P (Poll p)" "\<And>p. P (ReadStderr p)" "\<And>p. P (ClosePipe p)" "\<And>p. P (CloseStderr p)"
    and "emits_only P w w1"
  shows "emits_only P w (snd (PipedCompressionReader_init E path program mode fl t w1))"
  using assms
  by (auto simp: PipedCompressionReader_init_def Let_def 
      intro!: emits_only_emit raise_if_error_emits split: option.splits sum.splits)

lemma gzip_reader_emits:
  assumes "\<And>args. hd args = ''pigz'' \<or> hd args = ''gzip'' \<Longrightarrow> P (Popen args)" "P Sleep"
     "\<And>p. P (Poll p)" "\<And>p. P (ReadStderr p)" "\<And>p. P (ClosePipe p)" "\<And>p. P (CloseStderr p)"
    and "emits_only P w w1"
  shows "emits_only P w (snd (PipedGzipReader_init E path mode t w1))"
  unfolding PipedGzipReader_init_def Let_def
  by (simp add: assms reader_init_emits)

lemma gzip_writer_emits:
  assumes "\<And>args. hd args = ''pigz'' \<or> hd args = ''gzip'' \<Longrightarrow> P (Popen args)"
    and "\<And>p m. P (Open p m)" and "\<And>p. P (Close p)" and "P CpuCount"
    and "emits_only P w w1"
  shows "emits_only P w (snd (PipedGzipWriter_init E path mode cl t w1))"
  unfolding PipedGzipWriter_init_def Let_def
  by (simp add: assms writer_init_emits)

lemma igzip_reader_emits:
  assumes "\<And>args. hd args = ''igzip'' \<Longrightarrow> P (Popen args)" "P Sleep"
     "P (Run [''igzip'', ''-c'', ''-d'', test_gz E])"
     "\<And>p. P (Poll p)" "\<And>p. P (ReadStderr p)" "\<And>p. P (ClosePipe p)" "\<And>p. P (CloseStderr p)"
    and "emits_only P w w1"
  shows "emits_only P w (snd (PipedIGzipReader_init E path mode w1))"
  unfolding PipedIGzipReader_init_def Let_def
  by (auto simp add: assms reader_init_emits probe_emits split: sum.splits)

lemma igzip_writer_emits:
  assumes "\<And>args. hd args = ''igzip'' \<Longrightarrow> P (Popen args)"
    and "\<And>p m. P (Open p m)" and "\<And>p. P (Close p)" and "P CpuCount"
    and "emits_only P w w1"
  shows "emits_only P w (snd (PipedIGzipWriter_init E path mode cl w1))"
  unfolding PipedIGzipWriter_init_def Let_def
  by (simp add: assms writer_init_emits)

lemma gzip_open_call_emits:
  "P (GzipOpen f m l) \<Longrightarrow> emits_only P w w1 \<Longrightarrow> emits_only P w (snd (gzip_open_call E f m l w1))"
  by (auto simp: gzip_open_call_def emits_only_emit split: option.splits)

lemma open_bz2_emits:
  "P (Bz2Open f m) \<Longrightarrow> emits_only P w w1 \<Longrightarrow> emits_only P w (snd (open_bz2 E f m w1))"
  by (auto simp: open_bz2_def emits_only_emit split: option.splits)

lemma open_xz_emits:
  "P (LzmaOpen f m) \<Longrightarrow> emits_only P w w1 \<Longrightarrow> emits_only P w (snd (open_xz E f m w1))"
  by (auto simp: open_xz_def emits_only_emit split: option.splits)

lemma plain_open_emits:
  "P (Open f m) \<Longrightarrow> emits_only P w w1 \<Longrightarrow> emits_only P w (snd (plain_open E f m w1))"
  by (auto simp: plain_open_def emits_only_emit split: option.splits)

lemma open_stdin_or_out_emits:
  "(\<And>s. P (OpenFd s m)) \<Longrightarrow> emits_only P w w1 \<Longrightarrow> emits_only P w (snd (open_stdin_or_out E m w1))"
  by (auto simp: open_stdin_or_out_def emits_only_emit split: option.splits list.splits)

lemma open_gz_codec_emits:
  "(\<And>l. P (GzipOpen f m l)) \<Longrightarrow> emits_only P w w1 \<Longrightarrow> emits_only P w (snd (open_gz_codec E f m cl w1))"
  by (auto simp: open_gz_codec_def gzip_open_call_emits)

lemma snd_lift_reader [simp]: "snd (lift_reader r) = snd r"
  by (simp add: lift_reader_def)

lemma snd_lift_writer [simp]: "snd (lift_writer r) = snd r"
  by (simp add: lift_writer_def)

lemma open_gz_piped_emits:
  assumes "\<And>args. P (Popen args)" 
    and "\<And>args. P (Run args)"
    and "\<And>p m. P (Open p m)" and "\<And>p. P (Close p)" and "P CpuCount" "P Sleep"
     "\<And>p. P (Poll p)" "\<And>p. P (ReadStderr p)" "\<And>p. P (ClosePipe p)" "\<And>p. P (CloseStderr p)"
    and "emits_only P w w1"
  shows "emits_only P w (snd (open_gz_piped E f m cl t w1))"
  unfolding open_gz_piped_def Let_def
  by (auto simp add: assms igzip_reader_emits igzip_writer_emits gzip_reader_emits gzip_writer_emits split: sum.splits)

lemma open_gz_emits:
  assumes "\<And>args. P (Popen args)" 
    and "\<And>args. P (Run args)"
    and "\<And>p m. P (Open p m)" and "\<And>p. P (Close p)" and "P CpuCount" "P Sleep"
     "\<And>p. P (Poll p)" "\<And>p. P (ReadStderr p)" "\<And>p. P (ClosePipe p)" "\<And>p. P (CloseStderr p)"
     "\<And>l. P (GzipOpen f m l)"
    and "emits_only P w w1"
  shows "emits_only P w (snd (open_gz E f m cl t w1))"
  unfolding open_gz_def Let_def
  by (auto simp add: assms open_gz_piped_emits open_gz_codec_emits)

subsection \<open>Format detection from the extension\<close>

lemma endswith_iff: "endswith s suf \<longleftrightarrow> (\<exists>p. s = p @ suf)"
  unfolding endswith_def
proof
  assume "length suf \<le> length s \<and> drop (length s - length suf) s = suf"
  then have "s = take (length s - length suf) s @ suf"
    by (metis append_take_drop_id)
  then show "\<exists>p. s = p @ suf" ..
next
  assume "\<exists>p. s = p @ suf"
  then show "length suf \<le> length s \<and> drop (length s - length suf) s = suf"
    by auto
qed

text \<open>
  C5: for every filename ending in \<^verbatim>\<open>.gz\<close> (respectively \<^verbatim>\<open>.bz2\<close>, \<^verbatim>\<open>.xz\<close>),
  extension-based detection returns the tag gz (respectively bz2, xz); the function takes
  the filename alone, so the content of the file plays no part. For every other filename it
  returns no format. The match is an exact, case-sensitive suffix match: \<^verbatim>\<open>DATA.GZ\<close> has
  no format, and neither has a name with \<^verbatim>\<open>.gz\<close> in the middle.
\<close>

theorem detect_format_from_extension_suffix:
  "(detect_format_from_extension f = Some ''gz'') = (\<exists>p. f = p @ ''.gz'') \<and>
   (detect_format_from_extension f = Some ''bz2'') = (\<exists>p. f = p @ ''.bz2'') \<and>
   (detect_format_from_extension f = Some ''xz'') = (\<exists>p. f = p @ ''.xz'') \<and>
   (detect_format_from_extension f = None) =
     (\<not> (\<exists>p. f = p @ ''.gz'') \<and> \<not> (\<exists>p. f = p @ ''.bz2'') \<and> \<not> (\<exists>p. f = p @ ''.xz'')) \<and>
   detect_format_from_extension ''DATA.GZ'' = None \<and>
   detect_format_from_extension ''data.gz.txt'' = None"
proof -
  have a: "\<not> (endswith f ''.bz2'' \<and> endswith f ''.xz'')"
    and b: "\<not> (endswith f ''.bz2'' \<and> endswith f ''.gz'')"
    and c: "\<not> (endswith f ''.xz'' \<and> endswith f ''.gz'')"
    by (auto simp: endswith_iff)
  have d: "detect_format_from_extension ''DATA.GZ'' = None"
    "detect_format_from_extension ''data.gz.txt'' = None"
    by (simp_all add: detect_format_from_extension_def endswith_def)
  show ?thesis
    using a b c d unfolding detect_format_from_extension_def endswith_iff [symmetric]
    by auto
qed

subsection \<open>Mode validation\<close>

text \<open>
  C4: \<^verbatim>\<open>xopen\<close> normalizes the modes \<^verbatim>\<open>r\<close>, \<^verbatim>\<open>w\<close>, \<^verbatim>\<open>a\<close> to \<^verbatim>\<open>rt\<close>, \<^verbatim>\<open>wt\<close>,
  \<^verbatim>\<open>at\<close>: opening with the short mode is opening with the long one. For every mode whose
  normalization is not one of rt, rb, wt, wb, at, ab it raises \<^verbatim>\<open>ValueError\<close> and leaves
  the world as it was: nothing has been done before the error.
\<close>

theorem xopen_mode_validation:
  "normalize_mode ''r'' = ''rt'' \<and> normalize_mode ''w'' = ''wt'' \<and> normalize_mode ''a'' = ''at'' \<and>
   xopen E f ''r'' cl t w = xopen E f ''rt'' cl t w \<and>
   xopen E f ''w'' cl t w = xopen E f ''wt'' cl t w \<and>
   xopen E f ''a'' cl t w = xopen E f ''at'' cl t w \<and>
   (normalize_mode mode \<notin> set legal_modes \<longrightarrow>
      xopen E f mode cl t w =
        (Inl (ValueError (''Mode '' @ quoted (normalize_mode mode) @ '' not supported'')), w))"
  by (simp add: xopen_def normalize_mode_def)

theorem xopen_mode_validation_witness:
  "normalize_mode ''rw'' \<notin> set legal_modes \<and>
   xopen (test_env [] []) ''data.gz'' ''rw'' None None w0 =
     (Inl (ValueError ''Mode 'rw' not supported''), w0)"
  using xopen_mode_validation [of "test_env [] []" "''data.gz''" None None w0 "''rw''"]
  by (simp add: normalize_mode_def legal_modes_def quoted_def)

subsection \<open>The special path \<^verbatim>\<open>-\<close>\<close>

text \<open>
  C10: for the path \<^verbatim>\<open>-\<close> and an append mode (\<^verbatim>\<open>a\<close>, \<^verbatim>\<open>at\<close>, \<^verbatim>\<open>ab\<close>), \<^verbatim>\<open>xopen\<close>
  raises \<^verbatim>\<open>KeyError\<close> on the first character of the mode: the mode passes validation,
  and the lookup of \<^verbatim>\<open>_open_stdin_or_out\<close> knows the keys \<^verbatim>\<open>r\<close> and \<^verbatim>\<open>w\<close> only. No
  stream is returned and nothing is opened.
\<close>

theorem stdio_append_key_error:
  "xopen E ''-'' ''a'' cl t w = (Inl (KeyError ''a''), w) \<and>
   xopen E ''-'' ''at'' cl t w = (Inl (KeyError ''a''), w) \<and>
   xopen E ''-'' ''ab'' cl t w = (Inl (KeyError ''a''), w)"
  by (simp add: xopen_def normalize_mode_def legal_modes_def open_stdin_or_out_def)

subsection \<open>Running the model\<close>

text \<open>The definitions of the model, for evaluating it on a concrete input.\<close>

lemmas model_defs =
  xopen_def detect_format_def normalize_mode_def legal_modes_def open_stdin_or_out_def open_gz_def
  open_gz_piped_def open_gz_codec_def gzip_open_call_def open_bz2_def open_xz_def plain_open_def
  detect_format_from_content_def detect_format_from_extension_def endswith_def
  PipedIGzipReader_init_def PipedIGzipWriter_init_def PipedGzipReader_init_def
  PipedGzipWriter_init_def PipedCompressionReader_init_def PipedCompressionWriter_init_def
  writer_open_process_def raise_if_error_def can_read_concatenated_gz_def
  poll_def wait_def emit_def lift_reader_def lift_writer_def reader_modes_def writer_modes_def
  in_range_def str_int_def digits.simps digit_char_def quoted_def
  test_env_def w0_def concatenated_payload_def Let_def

subsection \<open>Looking at the content of the target file\<close>

lemma detect_content_emits:
  "P (Stat f) \<Longrightarrow> P (Read6 f) \<Longrightarrow> emits_only P w w1 \<Longrightarrow>
   emits_only P w (snd (detect_format_from_content E f w1))"
  by (auto simp: detect_format_from_content_def Let_def emits_only_emit split: sum.splits)

lemma detect_format_emits:
  "P (Stat f) \<Longrightarrow> P (Read6 f) \<Longrightarrow> emits_only P w w1 \<Longrightarrow>
   emits_only P w (snd (detect_format E f m w1))"
  by (auto simp: detect_format_def detect_content_emits split: option.splits)

lemma detect_format_no_sniff:
  "CHR ''w'' \<in> set m \<or> detect_format_from_extension f \<noteq> None \<Longrightarrow>
   snd (detect_format E f m w) = w"
  by (auto simp: detect_format_def split: option.splits)

text \<open>After the detection, no branch of \<^verbatim>\<open>xopen\<close> looks at the content again.\<close>

lemma dispatch_emits:
  assumes "\<And>e. \<not> is_sniff e \<Longrightarrow> P e" "emits_only P w w1"
  shows "emits_only P w (snd (open_gz E f m cl t w1))"
    and "emits_only P w (snd (open_xz E f m w1))"
    and "emits_only P w (snd (open_bz2 E f m w1))"
    and "emits_only P w (snd (plain_open E f m w1))"
    and "emits_only P w (snd (open_stdin_or_out E m w1))"
  using assms
  by (simp_all add: open_gz_emits open_xz_emits open_bz2_emits plain_open_emits
      open_stdin_or_out_emits)

lemma xopen_emits_after_detect:
  assumes "\<And>e. \<not> is_sniff e \<Longrightarrow> P e"
    and "f \<noteq> ''-''" "normalize_mode mode0 \<in> set legal_modes"
    and "emits_only P w (snd (detect_format E f (normalize_mode mode0) w1))"
  shows "emits_only P w (snd (xopen E f mode0 cl t w1))"
  using assms(2-4) dispatch_emits [of P w, OF assms(1)]
  by (auto simp: xopen_def Let_def split: sum.splits)

lemma xopen_no_sniff:
  assumes "CHR ''w'' \<in> set (normalize_mode mode0) \<or> detect_format_from_extension f \<noteq> None \<or> f = ''-''"
  shows "emits_only (\<lambda>e. \<not> is_sniff e) w (snd (xopen E f mode0 cl t w))"
proof (cases "normalize_mode mode0 \<in> set legal_modes")
  case False
  then show ?thesis by (simp add: xopen_def)
next
  case legal: True
  show ?thesis
  proof (cases "f = ''-''")
    case True
    then show ?thesis
      using legal by (simp add: xopen_def open_stdin_or_out_emits)
  next
    case False
    with assms have "snd (detect_format E f (normalize_mode mode0) w) = w"
      by (intro detect_format_no_sniff) auto
    then show ?thesis
      using False legal by (intro xopen_emits_after_detect) auto
  qed
qed

lemma new_events_prefix:
  assumes "emits_only P w1 w2" "log w1 = log w @ xs"
  shows "take (length xs) (new_events w w2) = xs"
proof -
  from assms(1) obtain ys where "log w2 = log w1 @ ys"
    by (auto simp: emits_only_iff)
  with assms(2) show ?thesis
    by (simp add: new_events_def)
qed

lemma detect_content_log:
  "\<exists>ys. log (snd (detect_format_from_content E f w)) = log w @ Stat f # ys \<and>
      (os_stat E (log w) f = Inr True \<longrightarrow> ys = [Read6 f])"
  by (auto simp: detect_format_from_content_def Let_def emit_def split: sum.splits)

lemma xopen_sniffs:
  assumes "normalize_mode mode0 \<in> set legal_modes" "CHR ''w'' \<notin> set (normalize_mode mode0)"
    and "detect_format_from_extension f = None" "f \<noteq> ''-''"
  shows "take 1 (new_events w (snd (xopen E f mode0 cl t w))) = [Stat f] \<and>
         (os_stat E (log w) f = Inr True \<longrightarrow>
            take 2 (new_events w (snd (xopen E f mode0 cl t w))) = [Stat f, Read6 f])"
proof -
  let ?m = "normalize_mode mode0"
  let ?d = "detect_format_from_content E f w"
  obtain ys where ys: "log (snd ?d) = log w @ Stat f # ys"
    "os_stat E (log w) f = Inr True \<longrightarrow> ys = [Read6 f]"
    using detect_content_log by blast
  have d: "detect_format E f ?m w = ?d"
    using assms by (simp add: detect_format_def)
  have "emits_only (\<lambda>_. True) (snd ?d) (snd (xopen E f mode0 cl t w))"
    using assms(1,4) dispatch_emits [of "\<lambda>_. True" "snd ?d" "snd ?d"]
    by (auto simp: xopen_def d Let_def split: sum.splits)
  from new_events_prefix [OF this ys(1)]
  have t: "take (Suc (length ys)) (new_events w (snd (xopen E f mode0 cl t w))) = Stat f # ys"
    by simp
  have "take 1 (take (Suc (length ys)) (new_events w (snd (xopen E f mode0 cl t w)))) = [Stat f]"
    unfolding t by simp
  then have one: "take 1 (new_events w (snd (xopen E f mode0 cl t w))) = [Stat f]"
    by (simp add: min_def)
  have "os_stat E (log w) f = Inr True \<longrightarrow>
            take 2 (new_events w (snd (xopen E f mode0 cl t w))) = [Stat f, Read6 f]"
    using t ys(2) by (auto simp: numeral_2_eq_2)
  with one show ?thesis by simp
qed

text \<open>
  C1, as amended: content-based detection is performed only when extension detection
  yields no format and the mode is not a write mode. For every path and every write mode
  (\<^verbatim>\<open>w\<close>, \<^verbatim>\<open>wt\<close>, \<^verbatim>\<open>wb\<close>), \<^verbatim>\<open>xopen\<close> never looks at the content of the target file,
  and neither does it for a path with a recognised extension or for the path \<^verbatim>\<open>-\<close>. In an
  append mode (\<^verbatim>\<open>a\<close>, \<^verbatim>\<open>at\<close>, \<^verbatim>\<open>ab\<close>), as in a read mode, a path without a recognised
  extension is examined: the first call is \<^verbatim>\<open>os.stat\<close> on it and, when it is a regular
  file, its first bytes are read next.
\<close>

theorem xopen_content_sniffing_modes:
  "(mode0 \<in> set [''w'', ''wt'', ''wb''] \<or> detect_format_from_extension f \<noteq> None \<or> f = ''-'' \<longrightarrow>
      emits_only (\<lambda>e. \<not> is_sniff e) w (snd (xopen E f mode0 cl t w))) \<and>
   (mode0 \<in> set [''r'', ''rt'', ''rb'', ''a'', ''at'', ''ab''] \<and>
    detect_format_from_extension f = None \<and> f \<noteq> ''-'' \<longrightarrow>
      take 1 (new_events w (snd (xopen E f mode0 cl t w))) = [Stat f] \<and>
      (os_stat E (log w) f = Inr True \<longrightarrow>
         take 2 (new_events w (snd (xopen E f mode0 cl t w))) = [Stat f, Read6 f]))"
proof (intro conjI impI)
  assume "mode0 \<in> set [''w'', ''wt'', ''wb''] \<or> detect_format_from_extension f \<noteq> None \<or> f = ''-''"
  then have "CHR ''w'' \<in> set (normalize_mode mode0) \<or> detect_format_from_extension f \<noteq> None \<or>
      f = ''-''"
    by (auto simp: normalize_mode_def)
  then show "emits_only (\<lambda>e. \<not> is_sniff e) w (snd (xopen E f mode0 cl t w))"
    by (rule xopen_no_sniff)
next
  assume a: "mode0 \<in> set [''r'', ''rt'', ''rb'', ''a'', ''at'', ''ab''] \<and>
    detect_format_from_extension f = None \<and> f \<noteq> ''-''"
  then have m: "normalize_mode mode0 \<in> set legal_modes" "CHR ''w'' \<notin> set (normalize_mode mode0)"
    by (auto simp: normalize_mode_def legal_modes_def)
  from xopen_sniffs [OF m, where f = f and E = E and w = w and cl = cl and t = t] a
  show "take 1 (new_events w (snd (xopen E f mode0 cl t w))) = [Stat f]"
    by simp
  assume "os_stat E (log w) f = Inr True"
  with xopen_sniffs [OF m, where f = f and E = E and w = w and cl = cl and t = t] a
  show "take 2 (new_events w (snd (xopen E f mode0 cl t w))) = [Stat f, Read6 f]"
    by simp
qed

theorem xopen_content_sniffing_modes_witness:
  "''wb'' \<in> set [''w'', ''wt'', ''wb''] \<and>
   emits_only (\<lambda>e. \<not> is_sniff e) w0
     (snd (xopen (test_env [] [(''data'', [0x1f, 0x8b, 0x08, 0x00])]) ''data'' ''wb'' None (Some 0) w0)) \<and>
   ''ab'' \<in> set [''r'', ''rt'', ''rb'', ''a'', ''at'', ''ab''] \<and>
   detect_format_from_extension ''data'' = None \<and> ''data'' \<noteq> ''-'' \<and>
   os_stat (test_env [] [(''data'', [0x1f, 0x8b, 0x08, 0x00])]) (log w0) ''data'' = Inr True \<and>
   take 2 (new_events w0
     (snd (xopen (test_env [] [(''data'', [0x1f, 0x8b, 0x08, 0x00])]) ''data'' ''ab'' None (Some 0) w0))) =
     [Stat ''data'', Read6 ''data'']"
  using xopen_content_sniffing_modes
      [where ?mode0.0 = "''wb''" and f = "''data''" and w = w0 and cl = None and t = "Some 0"
         and E = "test_env [] [(''data'', [0x1f, 0x8b, 0x08, 0x00])]"]
    xopen_content_sniffing_modes
      [where ?mode0.0 = "''ab''" and f = "''data''" and w = w0 and cl = None and t = "Some 0"
         and E = "test_env [] [(''data'', [0x1f, 0x8b, 0x08, 0x00])]"]
  by (simp add: detect_format_from_extension_def endswith_def test_env_def)

text \<open>
  C1 as stated fails for the append modes: the guard of \<^verbatim>\<open>xopen\<close> is
  \<^verbatim>\<open>"w" not in mode\<close>. Appending to a file named \<^verbatim>\<open>data\<close> that starts with the gzip
  magic number reads its first bytes and opens it as gzip.
\<close>

theorem append_mode_sniffs_content:
  "xopen (test_env [] [(''data'', [0x1f, 0x8b, 0x08, 0x00])]) ''data'' ''a'' None (Some 0) w0 =
     (Inr (GzipFile ''data'' ''at'' (Some 6)),
      w0\<lparr>log := [Stat ''data'', Read6 ''data'', GzipOpen ''data'' ''at'' (Some 6)]\<rparr>)"
  by (simp add: model_defs)

subsection \<open>Appending to bz2\<close>

text \<open>
  C2: \<^verbatim>\<open>xopen\<close> has no check of its own for an append mode on a bz2 path: for every
  path ending in \<^verbatim>\<open>.bz2\<close> and each of the modes \<^verbatim>\<open>a\<close>, \<^verbatim>\<open>at\<close>, \<^verbatim>\<open>ab\<close> the mode goes
  to \<^verbatim>\<open>bz2.open\<close> as it is, and the outcome is that of the codec. With a codec that opens
  in append mode, as the \<^verbatim>\<open>bz2\<close> module of the supported Python versions does, the
  caller gets a stream and no error.
\<close>

theorem bz2_append_not_rejected:
  "xopen E (p @ ''.bz2'') ''a'' cl t w = open_bz2 E (p @ ''.bz2'') ''at'' w \<and>
   xopen E (p @ ''.bz2'') ''at'' cl t w = open_bz2 E (p @ ''.bz2'') ''at'' w \<and>
   xopen E (p @ ''.bz2'') ''ab'' cl t w = open_bz2 E (p @ ''.bz2'') ''ab'' w \<and>
   xopen (test_env [] []) ''x.bz2'' ''a'' None None w0 =
     (Inr (BZ2File ''x.bz2'' ''at''), w0\<lparr>log := [Bz2Open ''x.bz2'' ''at'']\<rparr>)"
proof -
  have d: "detect_format_from_extension (p @ ''.bz2'') = Some ''bz2''"
    by (simp add: detect_format_from_extension_def endswith_iff)
  have n: "p @ ''.bz2'' \<noteq> ''-''"
    by (cases p) simp_all
  have "xopen E (p @ ''.bz2'') m cl t w = open_bz2 E (p @ ''.bz2'') (normalize_mode m) w"
    if "m \<in> set [''a'', ''at'', ''ab'']" for m
    using that d n
    by (auto simp: xopen_def detect_format_def normalize_mode_def legal_modes_def Let_def)
  from this [of "''a''"] this [of "''at''"] this [of "''ab''"]
  have "xopen E (p @ ''.bz2'') ''a'' cl t w = open_bz2 E (p @ ''.bz2'') ''at'' w"
    "xopen E (p @ ''.bz2'') ''at'' cl t w = open_bz2 E (p @ ''.bz2'') ''at'' w"
    "xopen E (p @ ''.bz2'') ''ab'' cl t w = open_bz2 E (p @ ''.bz2'') ''ab'' w"
    by (simp_all add: normalize_mode_def)
  moreover have "xopen (test_env [] []) ''x.bz2'' ''a'' None None w0 =
     (Inr (BZ2File ''x.bz2'' ''at''), w0\<lparr>log := [Bz2Open ''x.bz2'' ''at'']\<rparr>)"
    by (simp add: model_defs)
  ultimately show ?thesis by simp
qed

subsection \<open>Compression levels of the gzip writers\<close>

lemma writer_init_no_ValueError:
  assumes "raises_no_ValueError E" "mode \<in> set writer_modes"
    and "fst (PipedCompressionWriter_init E path program mode cl fl t w) = Inl e"
  shows "\<not> is_ValueError e"
  using assms
  by (auto simp: PipedCompressionWriter_init_def writer_open_process_def raises_no_ValueError_def
      Let_def split: option.splits sum.splits if_splits)

lemma gzip_writer_no_ValueError:
  assumes "raises_no_ValueError E" "mode \<in> set writer_modes" "in_range 1 10 c"
    and "fst (PipedGzipWriter_init E path mode (Some c) t w) = Inl e"
  shows "\<not> is_ValueError e"
  using assms writer_init_no_ValueError [OF assms(1,2)]
  by (auto simp: PipedGzipWriter_init_def Let_def split: if_splits)

lemma codec_no_ValueError:
  assumes "raises_no_ValueError E"
    and "fst (open_gz_codec E f mode cl w) = Inl e"
  shows "\<not> is_ValueError e"
  using assms
  by (auto simp: open_gz_codec_def gzip_open_call_def raises_no_ValueError_def
      split: option.splits if_splits)

lemma igzip_writer_skipped:
  "\<not> in_range 0 4 c \<Longrightarrow>
   PipedIGzipWriter_init E f mode (Some c) w =
     (Inl (ValueError ''compresslevel must be between 0 and 3''), w)"
  by (simp add: PipedIGzipWriter_init_def)

lemma open_gz_piped_skips_igzip:
  "CHR ''r'' \<notin> set mode \<Longrightarrow> \<not> in_range 0 4 c \<Longrightarrow>
   open_gz_piped E f mode (Some c) t w = lift_writer (PipedGzipWriter_init E f mode (Some c) t w)"
  by (simp add: open_gz_piped_def igzip_writer_skipped)

lemma not_igzip: "hd args = ''pigz'' \<or> hd args = ''gzip'' \<Longrightarrow> \<not> spawns ''igzip'' (Popen args)"
  by (cases args) auto

lemma xopen_gz_write:
  assumes "mode0 \<in> set writer_modes" "detect_format_from_extension f = Some ''gz''"
  shows "xopen E f mode0 cl t w = open_gz E f (normalize_mode mode0) cl t w"
    and "normalize_mode mode0 \<in> set writer_modes" and "CHR ''r'' \<notin> set (normalize_mode mode0)"
proof -
  have "f \<noteq> ''-''"
    using assms(2) by (auto simp: detect_format_from_extension_def endswith_def)
  then show "xopen E f mode0 cl t w = open_gz E f (normalize_mode mode0) cl t w"
    using assms
    by (auto simp: xopen_def detect_format_def Let_def writer_modes_def normalize_mode_def
        legal_modes_def)
  show "normalize_mode mode0 \<in> set writer_modes" "CHR ''r'' \<notin> set (normalize_mode mode0)"
    using assms(1) by (auto simp: writer_modes_def normalize_mode_def)
qed

lemma level_out_of_range:
  assumes "CHR ''r'' \<notin> set mode" "t \<noteq> Some 0" "c < 0 \<or> 9 < c"
  shows "open_gz E f mode (Some c) t w =
           (Inl (ValueError ''compresslevel must be between 1 and 9''), w)"
proof -
  have "\<not> in_range 0 4 c" "\<not> in_range 1 10 c"
    using assms(3) by (auto simp: in_range_def)
  then show ?thesis
    using assms(1,2)
    by (simp add: open_gz_def open_gz_piped_skips_igzip PipedGzipWriter_init_def lift_writer_def)
qed

lemma level_general_backend:
  assumes "CHR ''r'' \<notin> set mode" "mode \<in> set writer_modes" "t \<noteq> Some 0" "4 \<le> c" "c \<le> 9"
  shows "emits_only (\<lambda>e. \<not> spawns ''igzip'' e) w (snd (open_gz E f mode (Some c) t w))"
    and "raises_no_ValueError E \<Longrightarrow> fst (open_gz E f mode (Some c) t w) = Inl e \<Longrightarrow>
         \<not> is_ValueError e"
proof -
  let ?g = "PipedGzipWriter_init E f mode (Some c) t w"
  have r: "\<not> in_range 0 4 c" "in_range 1 10 c"
    using assms(4,5) by (auto simp: in_range_def)
  have p: "open_gz_piped E f mode (Some c) t w = lift_writer ?g"
    using assms(1) r(1) by (rule open_gz_piped_skips_igzip)
  have g: "emits_only (\<lambda>e. \<not> spawns ''igzip'' e) w (snd ?g)"
    by (intro gzip_writer_emits not_igzip) simp_all
  then have "emits_only (\<lambda>e. \<not> spawns ''igzip'' e) w
      (snd (open_gz_codec E f mode (Some c) (snd ?g)))"
    by (intro open_gz_codec_emits) simp_all
  with g show "emits_only (\<lambda>e. \<not> spawns ''igzip'' e) w (snd (open_gz E f mode (Some c) t w))"
    using assms(3) by (simp add: open_gz_def p Let_def)
  assume E: "raises_no_ValueError E" and e: "fst (open_gz E f mode (Some c) t w) = Inl e"
  show "\<not> is_ValueError e"
  proof (cases "fst (lift_writer ?g) = Inl FileNotFoundError")
    case True
    then have "fst (open_gz_codec E f mode (Some c) (snd ?g)) = Inl e"
      using e assms(3) by (simp add: open_gz_def p Let_def)
    with E show ?thesis by (rule codec_no_ValueError)
  next
    case False
    then have "fst (lift_writer ?g) = Inl e"
      using e assms(3) by (simp add: open_gz_def p Let_def)
    then have "fst ?g = Inl e"
      by (cases "fst ?g") (auto simp: lift_writer_def)
    with E assms(2) r(2) show ?thesis by (rule gzip_writer_no_ValueError)
  qed
qed

lemma writer_init_lacks:
  assumes "lacks E program" "mode \<in> set writer_modes"
  shows "fst (PipedCompressionWriter_init E path program mode cl fl t w) = Inl FileNotFoundError"
    and "procs (snd (PipedCompressionWriter_init E path program mode cl fl t w)) = procs w"
proof -
  have o: "builtin_open E l p m = None" for l p m
    using assms(1) by (simp add: lacks_def)
  have s: "popen E l (program # args) = Some FileNotFoundError" for l args
    using assms(1) by (simp add: lacks_def)
  show "fst (PipedCompressionWriter_init E path program mode cl fl t w) = Inl FileNotFoundError"
    "procs (snd (PipedCompressionWriter_init E path program mode cl fl t w)) = procs w"
    using assms(2)
    by (simp_all add: PipedCompressionWriter_init_def writer_open_process_def o s Let_def emit_def
        split: option.splits)
qed

lemma writer_init_starts:
  assumes "starts E program" "mode \<in> set writer_modes"
  shows "\<exists>self. fst (PipedCompressionWriter_init E path program mode cl fl t w) = Inr self \<and>
           w_program self = program"
    and "last (log (snd (PipedCompressionWriter_init E path program mode cl fl t w))) =
           Popen (program #
             (case fl of
                None \<Rightarrow> []
              | Some flag \<Rightarrow>
                  if (case t of
                        None \<Rightarrow> min (int (available_cpu_count E
                                  (log w @ [Open path mode, Open (devnull E) mode]))) 4
                      | Some n \<Rightarrow> n) \<noteq> 0
                  then [flag, str_int (case t of
                        None \<Rightarrow> min (int (available_cpu_count E
                                  (log w @ [Open path mode, Open (devnull E) mode]))) 4
                      | Some n \<Rightarrow> n)]
                  else []) @
             (case cl of None \<Rightarrow> []
              | Some c \<Rightarrow> if CHR ''w'' \<in> set mode then [''-'' @ str_int c] else []))"
proof -
  have o: "builtin_open E l p m = None" for l p m
    using assms(1) by (simp add: starts_def)
  have s: "popen E l (program # args) = None" for l args
    using assms(1) by (simp add: starts_def)
  show "\<exists>self. fst (PipedCompressionWriter_init E path program mode cl fl t w) = Inr self \<and>
           w_program self = program"
    using assms(2)
    by (simp add: PipedCompressionWriter_init_def writer_open_process_def o s Let_def)
  show "last (log (snd (PipedCompressionWriter_init E path program mode cl fl t w))) =
           Popen (program #
             (case fl of
                None \<Rightarrow> []
              | Some flag \<Rightarrow>
                  if (case t of
                        None \<Rightarrow> min (int (available_cpu_count E
                                  (log w @ [Open path mode, Open (devnull E) mode]))) 4
                      | Some n \<Rightarrow> n) \<noteq> 0
                  then [flag, str_int (case t of
                        None \<Rightarrow> min (int (available_cpu_count E
                                  (log w @ [Open path mode, Open (devnull E) mode]))) 4
                      | Some n \<Rightarrow> n)]
                  else []) @
             (case cl of None \<Rightarrow> []
              | Some c \<Rightarrow> if CHR ''w'' \<in> set mode then [''-'' @ str_int c] else []))"
    using assms(2)
    by (cases t; cases fl)
      (simp_all add: PipedCompressionWriter_init_def writer_open_process_def o s Let_def emit_def)
qed

lemma igzip_writer_starts:
  assumes "starts E ''igzip''" "mode \<in> set writer_modes" "0 \<le> c" "c \<le> 3"
  shows "\<exists>self. PipedIGzipWriter_init E f mode (Some c) w =
           (Inr self,
            \<lparr>log = log w @ [Open f mode, Open (devnull E) mode, CpuCount,
                Popen (''igzip'' # (if CHR ''w'' \<in> set mode then [''-'' @ str_int c] else []))],
             procs = Suc (procs w), returncode = returncode w\<rparr>) \<and>
           w_program self = ''igzip''"
proof -
  have r: "in_range 0 4 c"
    using assms(3,4) by (simp add: in_range_def)
  have o: "builtin_open E l p m = None" for l p m
    using assms(1) by (simp add: starts_def)
  have s: "popen E l (''igzip'' # args) = None" for l args
    using assms(1) by (simp add: starts_def)
  show ?thesis
    using assms(2) r
    by (simp add: PipedIGzipWriter_init_def PipedCompressionWriter_init_def
        writer_open_process_def o s Let_def emit_def)
qed

lemma igzip_writer_lacks:
  assumes "lacks E ''igzip''" "mode \<in> set writer_modes" "0 \<le> c" "c \<le> 3"
  shows "PipedIGzipWriter_init E f mode (Some c) w =
           (Inl FileNotFoundError,
            w\<lparr>log := log w @ [Open f mode, Open (devnull E) mode, CpuCount,
                Popen (''igzip'' # (if CHR ''w'' \<in> set mode then [''-'' @ str_int c] else [])),
                Close f, Close (devnull E)]\<rparr>)"
proof -
  have r: "in_range 0 4 c"
    using assms(3,4) by (simp add: in_range_def)
  have o: "builtin_open E l p m = None" for l p m
    using assms(1) by (simp add: lacks_def)
  have s: "popen E l (''igzip'' # args) = Some FileNotFoundError" for l args
    using assms(1) by (simp add: lacks_def)
  show ?thesis
    using assms(2) r
    by (simp add: PipedIGzipWriter_init_def PipedCompressionWriter_init_def
        writer_open_process_def o s Let_def emit_def)
qed

lemma level_for_igzip:
  assumes "mode \<in> set writer_modes" "CHR ''r'' \<notin> set mode" "t \<noteq> Some 0" "0 \<le> c" "c \<le> 3"
    and "starts E ''igzip''"
  shows "(\<exists>self. fst (open_gz E f mode (Some c) t w) = Inr (PipedWriter self) \<and>
            w_program self = ''igzip'') \<and>
         new_events w (snd (open_gz E f mode (Some c) t w)) =
           [Open f mode, Open (devnull E) mode, CpuCount,
            Popen (''igzip'' # (if CHR ''w'' \<in> set mode then [''-'' @ str_int c] else []))]"
proof -
  from igzip_writer_starts [OF assms(6,1,4,5), of f w]
  obtain self where "PipedIGzipWriter_init E f mode (Some c) w =
           (Inr self,
            \<lparr>log = log w @ [Open f mode, Open (devnull E) mode, CpuCount,
                Popen (''igzip'' # (if CHR ''w'' \<in> set mode then [''-'' @ str_int c] else []))],
             procs = Suc (procs w), returncode = returncode w\<rparr>)" "w_program self = ''igzip''"
    by blast
  then show ?thesis
    using assms(2,3) by (simp add: open_gz_def open_gz_piped_def Let_def new_events_def)
qed

lemma level_zero_without_igzip:
  assumes "mode \<in> set writer_modes" "CHR ''r'' \<notin> set mode" "t \<noteq> Some 0"
    and "lacks E ''igzip''"
  shows "fst (open_gz E f mode (Some 0) t w) =
           Inl (ValueError ''compresslevel must be between 1 and 9'') \<and>
         procs (snd (open_gz E f mode (Some 0) t w)) = procs w \<and>
         new_events w (snd (open_gz E f mode (Some 0) t w)) =
           [Open f mode, Open (devnull E) mode, CpuCount,
            Popen (''igzip'' # (if CHR ''w'' \<in> set mode then [''-'' @ str_int 0] else [])),
            Close f, Close (devnull E)]"
proof -
  have "\<not> in_range 1 10 0"
    by (simp add: in_range_def)
  then show ?thesis
    using assms(2,3) igzip_writer_lacks [OF assms(4,1), of 0 f w]
    by (simp add: open_gz_def open_gz_piped_def PipedGzipWriter_init_def lift_writer_def Let_def
        new_events_def)
qed

lemma general_backend_pigz:
  assumes "mode \<in> set writer_modes" "CHR ''r'' \<notin> set mode" "t \<noteq> Some 0" "4 \<le> c" "c \<le> 9"
    and "starts E ''pigz''"
  shows "(\<exists>self. fst (open_gz E f mode (Some c) t w) = Inr (PipedWriter self) \<and>
            w_program self = ''pigz'') \<and>
         last (log (snd (open_gz E f mode (Some c) t w))) =
           Popen (''pigz'' #
             (if (case t of
                    None \<Rightarrow> min (int (available_cpu_count E
                              (log w @ [Open f mode, Open (devnull E) mode]))) 4
                  | Some n \<Rightarrow> n) \<noteq> 0
              then [''-p'', str_int (case t of
                    None \<Rightarrow> min (int (available_cpu_count E
                              (log w @ [Open f mode, Open (devnull E) mode]))) 4
                  | Some n \<Rightarrow> n)]
              else []) @
             (if CHR ''w'' \<in> set mode then [''-'' @ str_int c] else []))"
proof -
  let ?p = "PipedCompressionWriter_init E f ''pigz'' mode (Some c) (Some ''-p'') t w"
  have r: "\<not> in_range 0 4 c" "in_range 1 10 c"
    using assms(4,5) by (auto simp: in_range_def)
  note s = writer_init_starts [OF assms(6,1), of f "Some c" "Some ''-p''" t w]
  from s(1) obtain self where p: "fst ?p = Inr self" "w_program self = ''pigz''"
    by auto
  have "open_gz E f mode (Some c) t w = lift_writer ?p"
    using assms(2,3) r p(1)
    by (simp add: open_gz_def open_gz_piped_skips_igzip PipedGzipWriter_init_def lift_writer_def
        Let_def)
  then show ?thesis
    using p s(2) by (simp add: lift_writer_def)
qed

lemma general_backend_gzip:
  assumes "mode \<in> set writer_modes" "CHR ''r'' \<notin> set mode" "t \<noteq> Some 0" "4 \<le> c" "c \<le> 9"
    and "lacks E ''pigz''" "starts E ''gzip''"
  shows "(\<exists>self. fst (open_gz E f mode (Some c) t w) = Inr (PipedWriter self) \<and>
            w_program self = ''gzip'') \<and>
         last (log (snd (open_gz E f mode (Some c) t w))) =
           Popen (''gzip'' # (if CHR ''w'' \<in> set mode then [''-'' @ str_int c] else []))"
proof -
  let ?p = "PipedCompressionWriter_init E f ''pigz'' mode (Some c) (Some ''-p'') t w"
  let ?g = "PipedCompressionWriter_init E f ''gzip'' mode (Some c) None t (snd ?p)"
  have r: "\<not> in_range 0 4 c" "in_range 1 10 c"
    using assms(4,5) by (auto simp: in_range_def)
  have p: "fst ?p = Inl FileNotFoundError"
    using assms(6,1) by (rule writer_init_lacks)
  note s = writer_init_starts [OF assms(7,1), of f "Some c" None t "snd ?p"]
  from s(1) obtain self where g: "fst ?g = Inr self" "w_program self = ''gzip''"
    by auto
  have "open_gz E f mode (Some c) t w = lift_writer ?g"
    using assms(2,3) r p g(1)
    by (simp add: open_gz_def open_gz_piped_skips_igzip PipedGzipWriter_init_def lift_writer_def
        Let_def)
  then show ?thesis
    using g s(2) by (simp add: lift_writer_def)
qed

lemma general_backend_codec:
  assumes "mode \<in> set writer_modes" "CHR ''r'' \<notin> set mode" "t \<noteq> Some 0" "4 \<le> c" "c \<le> 9"
    and "lacks E ''pigz''" "lacks E ''gzip''"
  shows "\<exists>w1. open_gz E f mode (Some c) t w = gzip_open_call E f mode (Some c) w1"
proof -
  let ?p = "PipedCompressionWriter_init E f ''pigz'' mode (Some c) (Some ''-p'') t w"
  let ?g = "PipedCompressionWriter_init E f ''gzip'' mode (Some c) None t (snd ?p)"
  have r: "\<not> in_range 0 4 c" "in_range 1 10 c"
    using assms(4,5) by (auto simp: in_range_def)
  have p: "fst ?p = Inl FileNotFoundError"
    using assms(6,1) by (rule writer_init_lacks)
  have g: "fst ?g = Inl FileNotFoundError"
    using assms(7,1) by (rule writer_init_lacks)
  have "open_gz E f mode (Some c) t w = gzip_open_call E f mode (Some c) (snd ?g)"
    using assms(2,3) r p g
    by (simp add: open_gz_def open_gz_piped_skips_igzip PipedGzipWriter_init_def lift_writer_def
        open_gz_codec_def Let_def)
  then show ?thesis ..
qed

text \<open>
  C3, as amended: when write-opening a gzip path with the external backends enabled
  (threads not 0), a compression level outside 0..9 raises \<^verbatim>\<open>ValueError\<close> with the world
  unchanged, so before any file is opened or subprocess spawned. Level 0, which is also
  outside 1..9, raises the same \<^verbatim>\<open>ValueError\<close> when igzip is not found: no subprocess
  has been spawned, and the destination file has been opened and closed again in the
  attempt to start igzip. When igzip starts, level 0 is accepted, as is every level in
  0..3: igzip is spawned, with the option \<^verbatim>\<open>-N\<close> in the write modes and with no level
  option in the append modes, and the caller gets its stream. A level in 4..9 only causes
  igzip to be skipped, never spawned, in favour of the general backend: pigz is spawned
  with that level when it starts, gzip when pigz is not found, and the in-process codec
  is called with that level when neither is found; no \<^verbatim>\<open>ValueError\<close> reaches the caller
  unless the operating system or the codec raises one itself.
\<close>

theorem gz_write_level_validation:
  assumes "mode0 \<in> set writer_modes" and "detect_format_from_extension f = Some ''gz''"
    and "t \<noteq> Some 0"
  shows "(c < 0 \<or> 9 < c \<longrightarrow> xopen E f mode0 (Some c) t w = (Inl (ValueError ''compresslevel must be between 1 and 9''), w)) \<and>
         (c = 0 \<and> lacks E ''igzip'' \<longrightarrow>
            fst (xopen E f mode0 (Some c) t w) = Inl (ValueError ''compresslevel must be between 1 and 9'') \<and>
            procs (snd (xopen E f mode0 (Some c) t w)) = procs w \<and>
            new_events w (snd (xopen E f mode0 (Some c) t w)) =
              [Open f (normalize_mode mode0), Open (devnull E) (normalize_mode mode0), CpuCount,
               Popen (''igzip'' # (if CHR ''w'' \<in> set mode0 then [''-'' @ str_int c] else [])), Close f, Close (devnull E)]) \<and>
         (0 \<le> c \<and> c \<le> 3 \<and> starts E ''igzip'' \<longrightarrow>
            (\<exists>self. fst (xopen E f mode0 (Some c) t w) = Inr (PipedWriter self) \<and> w_program self = ''igzip'') \<and>
            new_events w (snd (xopen E f mode0 (Some c) t w)) =
              [Open f (normalize_mode mode0), Open (devnull E) (normalize_mode mode0), CpuCount,
               Popen (''igzip'' # (if CHR ''w'' \<in> set mode0 then [''-'' @ str_int c] else []))]) \<and>
         (4 \<le> c \<and> c \<le> 9 \<longrightarrow>
            emits_only (\<lambda>e. \<not> spawns ''igzip'' e) w (snd (xopen E f mode0 (Some c) t w))) \<and>
         (4 \<le> c \<and> c \<le> 9 \<and> raises_no_ValueError E \<longrightarrow>
            \<not> (\<exists>e. fst (xopen E f mode0 (Some c) t w) = Inl e \<and> is_ValueError e)) \<and>
         (4 \<le> c \<and> c \<le> 9 \<and> starts E ''pigz'' \<longrightarrow>
            (\<exists>self. fst (xopen E f mode0 (Some c) t w) = Inr (PipedWriter self) \<and> w_program self = ''pigz'') \<and>
            last (log (snd (xopen E f mode0 (Some c) t w))) =
              Popen (''pigz'' #
                (if (case t of
                      None \<Rightarrow> min (int (available_cpu_count E
                                (log w @ [Open f (normalize_mode mode0),
                                          Open (devnull E) (normalize_mode mode0)]))) 4
                    | Some n \<Rightarrow> n) \<noteq> 0
                 then [''-p'', str_int (case t of
                      None \<Rightarrow> min (int (available_cpu_count E
                                (log w @ [Open f (normalize_mode mode0),
                                          Open (devnull E) (normalize_mode mode0)]))) 4
                    | Some n \<Rightarrow> n)]
                 else []) @
                (if CHR ''w'' \<in> set mode0 then [''-'' @ str_int c] else []))) \<and>
         (4 \<le> c \<and> c \<le> 9 \<and> lacks E ''pigz'' \<and> starts E ''gzip'' \<longrightarrow>
            (\<exists>self. fst (xopen E f mode0 (Some c) t w) = Inr (PipedWriter self) \<and> w_program self = ''gzip'') \<and>
            last (log (snd (xopen E f mode0 (Some c) t w))) = Popen (''gzip'' # (if CHR ''w'' \<in> set mode0 then [''-'' @ str_int c] else []))) \<and>
         (4 \<le> c \<and> c \<le> 9 \<and> lacks E ''pigz'' \<and> lacks E ''gzip'' \<longrightarrow>
            (\<exists>w1. xopen E f mode0 (Some c) t w = gzip_open_call E f (normalize_mode mode0) (Some c) w1))"
proof -
  note x = xopen_gz_write [OF assms(1,2)]
  have m: "(CHR ''w'' \<in> set mode0) = (CHR ''w'' \<in> set (normalize_mode mode0))"
    using assms(1) by (auto simp: writer_modes_def normalize_mode_def)
  have a: "c < 0 \<or> 9 < c \<longrightarrow> xopen E f mode0 (Some c) t w = (Inl (ValueError ''compresslevel must be between 1 and 9''), w)"
    unfolding x(1) m using level_out_of_range [OF x(3) assms(3), where c = c and E = E and f = f and w = w]
    by blast
  have b: "c = 0 \<and> lacks E ''igzip'' \<longrightarrow>
            fst (xopen E f mode0 (Some c) t w) = Inl (ValueError ''compresslevel must be between 1 and 9'') \<and>
            procs (snd (xopen E f mode0 (Some c) t w)) = procs w \<and>
            new_events w (snd (xopen E f mode0 (Some c) t w)) =
              [Open f (normalize_mode mode0), Open (devnull E) (normalize_mode mode0), CpuCount,
               Popen (''igzip'' # (if CHR ''w'' \<in> set mode0 then [''-'' @ str_int c] else [])), Close f, Close (devnull E)]"
    unfolding x(1) m using level_zero_without_igzip [OF x(2) x(3) assms(3), where E = E and f = f and w = w]
    by blast
  have c: "0 \<le> c \<and> c \<le> 3 \<and> starts E ''igzip'' \<longrightarrow>
            (\<exists>self. fst (xopen E f mode0 (Some c) t w) = Inr (PipedWriter self) \<and> w_program self = ''igzip'') \<and>
            new_events w (snd (xopen E f mode0 (Some c) t w)) =
              [Open f (normalize_mode mode0), Open (devnull E) (normalize_mode mode0), CpuCount,
               Popen (''igzip'' # (if CHR ''w'' \<in> set mode0 then [''-'' @ str_int c] else []))]"
    unfolding x(1) m using level_for_igzip [OF x(2) x(3) assms(3), where c = c and E = E and f = f and w = w]
    by blast
  have d: "4 \<le> c \<and> c \<le> 9 \<longrightarrow>
            emits_only (\<lambda>e. \<not> spawns ''igzip'' e) w (snd (xopen E f mode0 (Some c) t w))"
    unfolding x(1) m using level_general_backend(1) [OF x(3) x(2) assms(3), where c = c and E = E and f = f and w = w]
    by blast
  have e: "4 \<le> c \<and> c \<le> 9 \<and> raises_no_ValueError E \<longrightarrow>
            \<not> (\<exists>e. fst (xopen E f mode0 (Some c) t w) = Inl e \<and> is_ValueError e)"
    unfolding x(1) m using level_general_backend(2) [OF x(3) x(2) assms(3), where c = c and E = E and f = f and w = w]
    by blast
  have f: "4 \<le> c \<and> c \<le> 9 \<and> starts E ''pigz'' \<longrightarrow>
            (\<exists>self. fst (xopen E f mode0 (Some c) t w) = Inr (PipedWriter self) \<and> w_program self = ''pigz'') \<and>
            last (log (snd (xopen E f mode0 (Some c) t w))) =
              Popen (''pigz'' #
                (if (case t of
                      None \<Rightarrow> min (int (available_cpu_count E
                                (log w @ [Open f (normalize_mode mode0),
                                          Open (devnull E) (normalize_mode mode0)]))) 4
                    | Some n \<Rightarrow> n) \<noteq> 0
                 then [''-p'', str_int (case t of
                      None \<Rightarrow> min (int (available_cpu_count E
                                (log w @ [Open f (normalize_mode mode0),
                                          Open (devnull E) (normalize_mode mode0)]))) 4
                    | Some n \<Rightarrow> n)]
                 else []) @
                (if CHR ''w'' \<in> set mode0 then [''-'' @ str_int c] else []))"
    unfolding x(1) m using general_backend_pigz [OF x(2) x(3) assms(3), where c = c and E = E and f = f and w = w]
    by blast
  have g: "4 \<le> c \<and> c \<le> 9 \<and> lacks E ''pigz'' \<and> starts E ''gzip'' \<longrightarrow>
            (\<exists>self. fst (xopen E f mode0 (Some c) t w) = Inr (PipedWriter self) \<and> w_program self = ''gzip'') \<and>
            last (log (snd (xopen E f mode0 (Some c) t w))) = Popen (''gzip'' # (if CHR ''w'' \<in> set mode0 then [''-'' @ str_int c] else []))"
    unfolding x(1) m using general_backend_gzip [OF x(2) x(3) assms(3), where c = c and E = E and f = f and w = w]
    by blast
  have h: "4 \<le> c \<and> c \<le> 9 \<and> lacks E ''pigz'' \<and> lacks E ''gzip'' \<longrightarrow>
            (\<exists>w1. xopen E f mode0 (Some c) t w = gzip_open_call E f (normalize_mode mode0) (Some c) w1)"
    unfolding x(1) m using general_backend_codec [OF x(2) x(3) assms(3), where c = c and E = E and f = f and w = w]
    by blast
  from a b c d e f g h show ?thesis
    by (intro conjI)
qed

theorem gz_write_level_validation_witness:
  "''wb'' \<in> set writer_modes \<and> ''ab'' \<in> set writer_modes \<and>
   detect_format_from_extension ''out.gz'' = Some ''gz'' \<and>
   (None :: int option) \<noteq> Some 0 \<and>
   raises_no_ValueError (test_env [''igzip'', ''pigz'', ''gzip''] []) \<and>
   starts (test_env [''igzip'', ''pigz'', ''gzip''] []) ''igzip'' \<and>
   starts (test_env [''igzip'', ''pigz'', ''gzip''] []) ''pigz'' \<and>
   lacks (test_env [''gzip''] []) ''igzip'' \<and>
   lacks (test_env [''gzip''] []) ''pigz'' \<and>
   starts (test_env [''gzip''] []) ''gzip'' \<and>
   lacks (test_env [] []) ''pigz'' \<and>
   lacks (test_env [] []) ''gzip'' \<and>
   xopen (test_env [''igzip'', ''pigz'', ''gzip''] []) ''out.gz'' ''wb'' (Some 10) None w0 =
     (Inl (ValueError ''compresslevel must be between 1 and 9''), w0) \<and>
   fst (xopen (test_env [''gzip''] []) ''out.gz'' ''wb'' (Some 0) None w0) =
     Inl (ValueError ''compresslevel must be between 1 and 9'') \<and>
   procs (snd (xopen (test_env [''gzip''] []) ''out.gz'' ''wb'' (Some 0) None w0)) = 0 \<and>
   new_events w0 (snd (xopen (test_env [''gzip''] []) ''out.gz'' ''wb'' (Some 0) None w0)) =
     [Open ''out.gz'' ''wb'', Open ''/dev/null'' ''wb'', CpuCount, Popen [''igzip'', ''-0''],
      Close ''out.gz'', Close ''/dev/null''] \<and>
   new_events w0
     (snd (xopen (test_env [''igzip'', ''pigz'', ''gzip''] []) ''out.gz'' ''wb'' (Some 2) None w0)) =
     [Open ''out.gz'' ''wb'', Open ''/dev/null'' ''wb'', CpuCount, Popen [''igzip'', ''-2'']] \<and>
   new_events w0
     (snd (xopen (test_env [''igzip'', ''pigz'', ''gzip''] []) ''out.gz'' ''ab'' (Some 2) None w0)) =
     [Open ''out.gz'' ''ab'', Open ''/dev/null'' ''ab'', CpuCount, Popen [''igzip'']] \<and>
   emits_only (\<lambda>e. \<not> spawns ''igzip'' e) w0
     (snd (xopen (test_env [''igzip'', ''pigz'', ''gzip''] []) ''out.gz'' ''wb'' (Some 6) None w0)) \<and>
   \<not> (\<exists>e. fst (xopen (test_env [''igzip'', ''pigz'', ''gzip''] []) ''out.gz'' ''wb'' (Some 6) None w0) =
        Inl e \<and> is_ValueError e) \<and>
   last (log (snd (xopen (test_env [''igzip'', ''pigz'', ''gzip''] []) ''out.gz'' ''wb'' (Some 6) None w0))) =
     Popen [''pigz'', ''-p'', ''4'', ''-6''] \<and>
   last (log (snd (xopen (test_env [''gzip''] []) ''out.gz'' ''wb'' (Some 6) None w0))) =
     Popen [''gzip'', ''-6''] \<and>
   fst (xopen (test_env [] []) ''out.gz'' ''wb'' (Some 6) None w0) =
     Inr (GzipFile ''out.gz'' ''wb'' (Some 6))"
proof -
  let ?A = "test_env [''igzip'', ''pigz'', ''gzip''] []"
  let ?G = "test_env [''gzip''] []"
  let ?N = "test_env [] []"
  have m: "''wb'' \<in> set writer_modes" and m': "''ab'' \<in> set writer_modes"
    by (simp_all add: writer_modes_def)
  have d: "detect_format_from_extension ''out.gz'' = Some ''gz''"
    by (simp add: detect_format_from_extension_def endswith_def)
  have t: "(None :: int option) \<noteq> Some 0"
    by simp
  have r: "raises_no_ValueError ?A"
    by (auto simp: raises_no_ValueError_def test_env_def)
  have s: "starts ?A ''igzip''" "starts ?A ''pigz''" "starts ?G ''gzip''"
    by (simp_all add: starts_def test_env_def)
  have l: "lacks ?G ''igzip''" "lacks ?G ''pigz''" "lacks ?N ''pigz''" "lacks ?N ''gzip''"
    by (simp_all add: lacks_def test_env_def)
  have v: "devnull ?A = ''/dev/null''" "devnull ?G = ''/dev/null''"
    "available_cpu_count ?A = (\<lambda>_. 8)" "procs w0 = 0"
    "fst (xopen ?N ''out.gz'' ''wb'' (Some 6) None w0) = Inr (GzipFile ''out.gz'' ''wb'' (Some 6))"
    by (simp_all add: model_defs)
  show ?thesis
    using m m' d t r s l v
      gz_write_level_validation [OF m d t, where c = 10 and E = ?A and w = w0]
      gz_write_level_validation [OF m d t, where c = 0 and E = ?G and w = w0]
      gz_write_level_validation [OF m d t, where c = 2 and E = ?A and w = w0]
      gz_write_level_validation [OF m' d t, where c = 2 and E = ?A and w = w0]
      gz_write_level_validation [OF m d t, where c = 6 and E = ?A and w = w0]
      gz_write_level_validation [OF m d t, where c = 6 and E = ?G and w = w0]
      gz_write_level_validation [OF m d t, where c = 6 and E = ?N and w = w0]
    by (simp add: normalize_mode_def str_int_def digits.simps digit_char_def)
qed

text \<open>
  C3 as stated fails at level 0, which is outside 1..9: with igzip installed, igzip is
  spawned with \<^verbatim>\<open>-0\<close> and the caller gets its stream, not a \<^verbatim>\<open>ValueError\<close>.
\<close>

theorem level_zero_accepted_by_igzip:
  "xopen (test_env [''igzip'', ''pigz'', ''gzip''] []) ''out.gz'' ''wb'' (Some 0) None w0 =
     (Inr (PipedWriter \<lparr>w_name = ''out.gz'', w_mode = ''wb'', w_program = ''igzip'',
             w_threads_flag = None, w_process = 0, w_text = False, w_closed = False\<rparr>),
      \<lparr>log = [Open ''out.gz'' ''wb'', Open ''/dev/null'' ''wb'', CpuCount, Popen [''igzip'', ''-0'']],
       procs = 1, returncode = (\<lambda>_. None)\<rparr>)"
  by (simp add: model_defs)

subsection \<open>No subprocess with threads 0\<close>

lemma detect_format_sniffs_only: "emits_only is_sniff w (snd (detect_format E f m w))"
  by (simp add: detect_format_emits)

lemma emits_only_mono:
  "emits_only P w w' \<Longrightarrow> (\<And>e. P e \<Longrightarrow> Q e) \<Longrightarrow> emits_only Q w w'"
  by (auto simp: emits_only_iff list_all_iff)

text \<open>
  C6: for every path whose detected format is gzip and every legal mode, \<^verbatim>\<open>xopen\<close> with
  threads 0 spawns no subprocess, and what it returns is what one call of the in-process
  codec \<^verbatim>\<open>gzip.open\<close> returns, made after the calls of the format detection only.
\<close>

theorem threads_zero_uses_codec:
  assumes "normalize_mode mode0 \<in> set legal_modes" and "f \<noteq> ''-''"
    and "fst (detect_format E f (normalize_mode mode0) w) = Inr (Some ''gz'')"
  shows "emits_only (\<lambda>e. \<not> is_spawn e) w (snd (xopen E f mode0 cl (Some 0) w)) \<and>
         (\<exists>lvl w1. emits_only is_sniff w w1 \<and>
            xopen E f mode0 cl (Some 0) w = gzip_open_call E f (normalize_mode mode0) lvl w1)"
proof -
  let ?m = "normalize_mode mode0"
  let ?w1 = "snd (detect_format E f ?m w)"
  have x: "xopen E f mode0 cl (Some 0) w = open_gz_codec E f ?m cl ?w1"
    using assms by (simp add: xopen_def open_gz_def Let_def)
  have s: "emits_only is_sniff w ?w1"
    by (rule detect_format_sniffs_only)
  then have "emits_only (\<lambda>e. \<not> is_spawn e) w ?w1"
    by (rule emits_only_mono) (auto elim: is_sniff.elims)
  then have "emits_only (\<lambda>e. \<not> is_spawn e) w (snd (open_gz_codec E f ?m cl ?w1))"
    by (intro open_gz_codec_emits) auto
  moreover have "\<exists>lvl. open_gz_codec E f ?m cl ?w1 = gzip_open_call E f ?m lvl ?w1"
    unfolding open_gz_codec_def by (cases "CHR ''r'' \<in> set ?m") auto
  ultimately show ?thesis
    using s x by auto
qed

theorem threads_zero_uses_codec_witness:
  "normalize_mode ''w'' \<in> set legal_modes \<and> ''data.gz'' \<noteq> ''-'' \<and>
   fst (detect_format (test_env [''igzip'', ''pigz'', ''gzip''] []) ''data.gz'' (normalize_mode ''w'') w0) =
     Inr (Some ''gz'') \<and>
   emits_only (\<lambda>e. \<not> is_spawn e) w0
     (snd (xopen (test_env [''igzip'', ''pigz'', ''gzip''] []) ''data.gz'' ''w'' None (Some 0) w0)) \<and>
   xopen (test_env [''igzip'', ''pigz'', ''gzip''] []) ''data.gz'' ''w'' None (Some 0) w0 =
     (Inr (GzipFile ''data.gz'' ''wt'' (Some 6)), w0\<lparr>log := [GzipOpen ''data.gz'' ''wt'' (Some 6)]\<rparr>)"
  using threads_zero_uses_codec
      [where ?mode0.0 = "''w''" and f = "''data.gz''" and w = w0 and cl = None
         and E = "test_env [''igzip'', ''pigz'', ''gzip''] []"]
  by (simp add: model_defs)

subsection \<open>The level given to the in-process codec\<close>

lemma codec_level_is_others:
  "codec_level_is lvl (Popen a)" "codec_level_is lvl (Run a)" "codec_level_is lvl (Open p m)"
  "codec_level_is lvl (Close p)" "codec_level_is lvl CpuCount" "codec_level_is lvl Sleep"
  "codec_level_is lvl (Poll n)" "codec_level_is lvl (ReadStderr n)"
  "codec_level_is lvl (ClosePipe n)" "codec_level_is lvl (CloseStderr n)"
  by simp_all

text \<open>
  C7: when \<^verbatim>\<open>_open_gz\<close> writes or appends, every call of the in-process codec it makes
  carries level 6 when the caller gave no level and the caller's level otherwise; and it
  does fall through to the codec, with that level, when threads is 0 or when the external
  backends end in \<^verbatim>\<open>FileNotFoundError\<close>.
\<close>

theorem codec_level_default_six:
  assumes "CHR ''r'' \<notin> set mode"
  shows "emits_only (codec_level_is (case cl of None \<Rightarrow> 6 | Some c \<Rightarrow> c)) w
           (snd (open_gz E f mode cl t w)) \<and>
         (t = Some 0 \<or> fst (open_gz_piped E f mode cl t w) = Inl FileNotFoundError \<longrightarrow>
            (\<exists>w1. open_gz E f mode cl t w =
               gzip_open_call E f mode (Some (case cl of None \<Rightarrow> 6 | Some c \<Rightarrow> c)) w1))"
proof -
  let ?lvl = "case cl of None \<Rightarrow> 6 | Some c \<Rightarrow> c"
  have codec: "open_gz_codec E f mode cl w1 = gzip_open_call E f mode (Some ?lvl) w1" for w1
    using assms by (simp add: open_gz_codec_def)
  have piped: "emits_only (codec_level_is ?lvl) w (snd (open_gz_piped E f mode cl t w))"
    by (intro open_gz_piped_emits codec_level_is_others) simp
  have call: "emits_only (codec_level_is ?lvl) w (snd (gzip_open_call E f mode (Some ?lvl) w1))"
    if "emits_only (codec_level_is ?lvl) w w1" for w1
    using that by (intro gzip_open_call_emits) simp_all
  have "emits_only (codec_level_is ?lvl) w (snd (open_gz E f mode cl t w))"
    unfolding open_gz_def Let_def codec using piped call by simp
  moreover have "\<exists>w1. open_gz E f mode cl t w = gzip_open_call E f mode (Some ?lvl) w1"
    if "t = Some 0 \<or> fst (open_gz_piped E f mode cl t w) = Inl FileNotFoundError"
    using that unfolding open_gz_def Let_def codec by auto
  ultimately show ?thesis by blast
qed

theorem codec_level_default_six_witness:
  "CHR ''r'' \<notin> set ''wb'' \<and>
   fst (open_gz_piped (test_env [] []) ''data.gz'' ''wb'' None None w0) = Inl FileNotFoundError \<and>
   open_gz (test_env [] []) ''data.gz'' ''wb'' None None w0 =
     (Inr (GzipFile ''data.gz'' ''wb'' (Some 6)),
      w0\<lparr>log := [Open ''data.gz'' ''wb'', Open ''/dev/null'' ''wb'', CpuCount, Popen [''igzip''],
                  Close ''data.gz'', Close ''/dev/null'',
                  Open ''data.gz'' ''wb'', Open ''/dev/null'' ''wb'', CpuCount, Popen [''pigz'', ''-p'', ''4''],
                  Close ''data.gz'', Close ''/dev/null'',
                  Open ''data.gz'' ''wb'', Open ''/dev/null'' ''wb'', CpuCount, Popen [''gzip''],
                  Close ''data.gz'', Close ''/dev/null'',
                  GzipOpen ''data.gz'' ''wb'' (Some 6)]\<rparr>) \<and>
   open_gz (test_env [] []) ''data.gz'' ''wb'' (Some 9) (Some 0) w0 =
     (Inr (GzipFile ''data.gz'' ''wb'' (Some 9)), w0\<lparr>log := [GzipOpen ''data.gz'' ''wb'' (Some 9)]\<rparr>)"
  using codec_level_default_six
      [where mode = "''wb''" and f = "''data.gz''" and w = w0 and cl = None and t = None
         and E = "test_env [] []"]
    codec_level_default_six
      [where mode = "''wb''" and f = "''data.gz''" and w = w0 and cl = "Some 9" and t = "Some 0"
         and E = "test_env [] []"]
  by (simp add: model_defs)

subsection \<open>Closing twice\<close>

text \<open>
  C8: after a first \<^verbatim>\<open>close\<close> of a piped writer or reader, whatever that call did or
  raised, a further \<^verbatim>\<open>close\<close> in any later world returns at once: no exception, the
  handle unchanged, and the world unchanged, so no wait on the process and no closing of
  a pipe or file again.
\<close>

theorem piped_close_idempotent:
  "PipedCompressionWriter_close E' (fst (snd (PipedCompressionWriter_close E wr w))) w' =
     (None, fst (snd (PipedCompressionWriter_close E wr w)), w') \<and>
   PipedCompressionReader_close E' (fst (snd (PipedCompressionReader_close E rd w))) w' =
     (None, fst (snd (PipedCompressionReader_close E rd w)), w')"
proof -
  have "w_closed (fst (snd (PipedCompressionWriter_close E wr w)))"
    by (simp add: PipedCompressionWriter_close_def Let_def split: option.splits)
  moreover have "r_closed (fst (snd (PipedCompressionReader_close E rd w)))"
    by (simp add: PipedCompressionReader_close_def Let_def split: option.splits)
  ultimately show ?thesis
    by (simp add: PipedCompressionWriter_close_def PipedCompressionReader_close_def)
qed

subsection \<open>The probe of igzip\<close>

lemma probes_unchanged: "emits_only (\<lambda>e. \<not> is_probe e) w w' \<Longrightarrow> probes w' = probes w"
  by (auto simp: emits_only_iff probes_def list_all_iff filter_empty_conv)

lemma probes_probe: "probes (snd (can_read_concatenated_gz E program w)) = Suc (probes w)"
  by (simp add: can_read_concatenated_gz_def probes_def emit_def Let_def split: sum.splits)

lemma probes_igzip_reader: "probes (snd (PipedIGzipReader_init E path mode w)) = Suc (probes w)"
proof -
  let ?c = "can_read_concatenated_gz E ''igzip'' w"
  have "emits_only (\<lambda>e. \<not> is_probe e) (snd ?c)
          (snd (PipedCompressionReader_init E path ''igzip'' mode None None (snd ?c)))"
    by (intro reader_init_emits) simp_all
  then have "probes (snd (PipedCompressionReader_init E path ''igzip'' mode None None (snd ?c))) =
      probes (snd ?c)"
    by (rule probes_unchanged)
  then show ?thesis
    by (simp add: PipedIGzipReader_init_def Let_def probes_probe split: sum.splits)
qed

lemma probes_gzip_reader: "probes (snd (PipedGzipReader_init E path mode t w)) = probes w"
  by (intro probes_unchanged gzip_reader_emits) simp_all

lemma probes_codec: "probes (snd (open_gz_codec E f mode cl w)) = probes w"
  by (intro probes_unchanged open_gz_codec_emits) simp_all

lemma probes_open_gz_read:
  assumes "CHR ''r'' \<in> set mode" "t \<noteq> Some 0"
  shows "probes (snd (open_gz E f mode cl t w)) = Suc (probes w)"
proof -
  have "probes (snd (open_gz_piped E f mode cl t w)) = Suc (probes w)"
    using assms(1)
    by (simp add: open_gz_piped_def Let_def probes_igzip_reader probes_gzip_reader
        split: sum.splits)
  then show ?thesis
    using assms(2) by (simp add: open_gz_def Let_def probes_codec)
qed

lemma probes_detect: "probes (snd (detect_format E f m w)) = probes w"
  by (intro probes_unchanged detect_format_emits) simp_all

text \<open>
  C9, as amended: the result of the probe is not cached. Every read-open of a gzip path
  with threads not 0 runs the probe subprocess exactly once more.
\<close>

theorem probe_runs_at_every_read_open:
  assumes "normalize_mode mode0 \<in> set [''rt'', ''rb'']" and "f \<noteq> ''-''"
    and "fst (detect_format E f (normalize_mode mode0) w) = Inr (Some ''gz'')"
    and "t \<noteq> Some 0"
  shows "probes (snd (xopen E f mode0 cl t w)) = Suc (probes w)"
proof -
  let ?m = "normalize_mode mode0"
  have r: "CHR ''r'' \<in> set ?m" and l: "?m \<in> set legal_modes"
    using assms(1) by (auto simp: legal_modes_def)
  have "xopen E f mode0 cl t w = open_gz E f ?m cl t (snd (detect_format E f ?m w))"
    using assms(2,3) l by (simp add: xopen_def Let_def)
  then show ?thesis
    using probes_open_gz_read [OF r assms(4)] by (simp add: probes_detect)
qed

theorem probe_runs_at_every_read_open_witness:
  "normalize_mode ''rb'' \<in> set [''rt'', ''rb''] \<and> ''a.gz'' \<noteq> ''-'' \<and>
   fst (detect_format (test_env [''igzip''] []) ''a.gz'' (normalize_mode ''rb'') w0) = Inr (Some ''gz'') \<and>
   (None :: int option) \<noteq> Some 0 \<and>
   probes w0 = 0 \<and>
   probes (snd (xopen (test_env [''igzip''] []) ''a.gz'' ''rb'' None None w0)) = 1"
  using probe_runs_at_every_read_open
      [where ?mode0.0 = "''rb''" and f = "''a.gz''" and w = w0 and cl = None and t = None
         and E = "test_env [''igzip''] []"]
  by (simp add: normalize_mode_def detect_format_def detect_format_from_extension_def endswith_def
      probes_def w0_def)

text \<open>
  C9 as stated fails: two read-opens of a gzip file, one after the other in the same
  process, run the probe twice.
\<close>

theorem probe_rerun_on_second_open:
  "probes (snd (xopen (test_env [''igzip''] []) ''a.gz'' ''rb'' None None
     (snd (xopen (test_env [''igzip''] []) ''a.gz'' ''rb'' None None w0)))) = 2"
  by (simp add: model_defs probes_def)

end
